theory Spec2Isabelle
  imports Complex_Main "HOL-Library.Sublist"
begin

section \<open>JavaScript values as the order API sees them\<close>

text \<open>
  The request body is whatever JSON the caller sent (\<^verbatim>\<open>req.body\<close> is untyped at run
  time), so every field is a JavaScript value. A missing field reads as \<open>JUndefined\<close>.
  Numbers are IEEE doubles; the handlers only test them against zero, so a finite double
  is represented by its real value and \<open>NaN\<close> is kept apart. Arrays and objects are never
  inspected by the code and are kept opaque (\<open>JObject\<close> carries their JSON text).
\<close>

datatype jsnum = NaN | Fin real

datatype jsval =
    JUndefined
  | JNull
  | JBool bool
  | JNum jsnum
  | JStr string
  | JObject string

text \<open>\<^verbatim>\<open>!v\<close> is \<open>\<not> truthy v\<close>.\<close>

fun truthy :: "jsval \<Rightarrow> bool" where
  "truthy JUndefined = False"
| "truthy JNull = False"
| "truthy (JBool b) = b"
| "truthy (JNum NaN) = False"
| "truthy (JNum (Fin r)) = (r \<noteq> 0)"
| "truthy (JStr s) = (s \<noteq> [])"
| "truthy (JObject s) = True"

text \<open>\<^verbatim>\<open>a || b\<close> and \<^verbatim>\<open>a ?? b\<close>.\<close>

definition js_or :: "jsval \<Rightarrow> jsval \<Rightarrow> jsval" where
  "js_or a b = (if truthy a then a else b)"

definition nullish :: "jsval \<Rightarrow> bool" where
  "nullish v = (v = JUndefined \<or> v = JNull)"

definition js_coalesce :: "jsval \<Rightarrow> jsval \<Rightarrow> jsval" where
  "js_coalesce a b = (if nullish a then b else a)"

text \<open>\<^verbatim>\<open>s.includes(sub)\<close> on strings: \<open>sub\<close> occurs in \<open>s\<close> as a contiguous block.\<close>

fun str_includes :: "string \<Rightarrow> string \<Rightarrow> bool" where
  "str_includes [] sub = (sub = [])"
| "str_includes (c # cs) sub = (prefix sub (c # cs) \<or> str_includes cs sub)"

section \<open>Errors, upstream objects and the environment\<close>

text \<open>
  A thrown value is an error object. The code reads three things from it:
  \<^verbatim>\<open>error.message\<close>, \<^verbatim>\<open>error?.response?.status\<close> and \<^verbatim>\<open>error?.data?.error\<close>; \<open>None\<close> is
  an absent property. \<open>Error m\<close> is \<^verbatim>\<open>new Error(m)\<close>.
\<close>

record jserror =
  err_message :: "string option"
  err_status :: "nat option"
  err_dataError :: "string option"

definition Error :: "string \<Rightarrow> jserror" where
  "Error m = \<lparr>err_message = Some m, err_status = None, err_dataError = None\<rparr>"

text \<open>\<^verbatim>\<open>error.message || fallback\<close>.\<close>

definition message_or :: "jserror \<Rightarrow> string \<Rightarrow> string" where
  "message_or e fallback =
     (case err_message e of None \<Rightarrow> fallback | Some m \<Rightarrow> if m = [] then fallback else m)"

text \<open>\<^verbatim>\<open>${error.message}\<close> inside a template string.\<close>

definition message_text :: "jserror \<Rightarrow> string" where
  "message_text e = (case err_message e of None \<Rightarrow> ''undefined'' | Some m \<Rightarrow> m)"

datatype creds = ApiKeyCreds string string string

datatype Side = BUY | SELL

datatype OrderType = GTC | GTD | FOK | FAK

text \<open>
  A \<^verbatim>\<open>PolymarketClobClient\<close> object. \<open>cl_id\<close> is the identity of the object (its
  allocation number): two clients are the same instance iff they are the same record,
  identity included. The temporary client built for key derivation has neither
  credentials nor signature type nor funder.
\<close>

record polyClient =
  cl_id :: nat
  cl_host :: string
  cl_chainId :: jsnum
  cl_signer :: jsval
  cl_creds :: "creds option"
  cl_signatureType :: "jsnum option"
  cl_funderAddress :: jsval

record userOrder =
  uo_tokenID :: jsval
  uo_price :: jsval
  uo_side :: Side
  uo_size :: jsval

record userMarketOrder =
  mo_tokenID :: jsval
  mo_amount :: jsval
  mo_side :: Side

record orderOptions =
  oo_tickSize :: jsval
  oo_negRisk :: jsval

text \<open>The calls that leave the process, in the order they are made.\<close>

datatype netcall =
    NetCreateOrDeriveApiKey polyClient
  | NetGetTickSize polyClient jsval
  | NetCreateAndPostOrder polyClient userOrder orderOptions OrderType
  | NetCreateAndPostMarketOrder polyClient userMarketOrder jsval OrderType

text \<open>
  Everything outside the repository is a parameter: the process environment, the
  implicit conversions of the JavaScript runtime on values the model keeps opaque, the
  wallet library and the venue. A venue answer may depend on the calls made so far
  (the first argument), so the venue need not answer the same question twice alike.
  \<open>Inl\<close> is a thrown error; \<open>createOrDeriveApiKey\<close> may also resolve to
  \<^verbatim>\<open>null\<close>/\<^verbatim>\<open>undefined\<close> (\<open>Inr None\<close>).
\<close>

record world =
  PRIVATE_KEY :: "string option"
  FUNDER_ADDRESS :: "string option"
  HOST :: "string option"
  CHAIN_ID :: "string option"
  SIGNATURE_TYPE :: "string option"
  parseInt10 :: "string \<Rightarrow> jsnum"
  toStringOther :: "jsval \<Rightarrow> string"
  toNumberOther :: "jsval \<Rightarrow> jsnum"
  newWallet :: "jsval \<Rightarrow> jserror option"
  createOrDeriveApiKey :: "netcall list \<Rightarrow> polyClient \<Rightarrow> jserror + creds option"
  getTickSize :: "netcall list \<Rightarrow> polyClient \<Rightarrow> jsval \<Rightarrow> jserror + jsval"
  createAndPostOrder_upstream ::
    "netcall list \<Rightarrow> polyClient \<Rightarrow> userOrder \<Rightarrow> orderOptions \<Rightarrow> OrderType \<Rightarrow> jserror + jsval"
  createAndPostMarketOrder_upstream ::
    "netcall list \<Rightarrow> polyClient \<Rightarrow> userMarketOrder \<Rightarrow> jsval \<Rightarrow> OrderType \<Rightarrow> jserror + jsval"
  now :: string

text \<open>\<^verbatim>\<open>String(v)\<close>, as a template string applies it.\<close>

fun toStringJS :: "world \<Rightarrow> jsval \<Rightarrow> string" where
  "toStringJS w (JStr s) = s"
| "toStringJS w JUndefined = ''undefined''"
| "toStringJS w JNull = ''null''"
| "toStringJS w (JBool b) = (if b then ''true'' else ''false'')"
| "toStringJS w v = toStringOther w v"

text \<open>\<^verbatim>\<open>Number(v)\<close>, as \<^verbatim>\<open><=\<close> applies it to a non-number operand.\<close>

fun toNumberJS :: "world \<Rightarrow> jsval \<Rightarrow> jsnum" where
  "toNumberJS w (JNum n) = n"
| "toNumberJS w JUndefined = NaN"
| "toNumberJS w JNull = Fin 0"
| "toNumberJS w (JBool b) = Fin (if b then 1 else 0)"
| "toNumberJS w v = toNumberOther w v"

text \<open>\<^verbatim>\<open>v <= 0\<close>.\<close>

definition le_zero :: "world \<Rightarrow> jsval \<Rightarrow> bool" where
  "le_zero w v = (case toNumberJS w v of NaN \<Rightarrow> False | Fin r \<Rightarrow> r \<le> 0)"

text \<open>A value of \<^verbatim>\<open>process.env\<close>: unset is \<^verbatim>\<open>undefined\<close>.\<close>

definition envVal :: "string option \<Rightarrow> jsval" where
  "envVal v = (case v of None \<Rightarrow> JUndefined | Some s \<Rightarrow> JStr s)"

text \<open>\<^verbatim>\<open>process.env.X || d\<close> on strings.\<close>

definition env_or :: "string option \<Rightarrow> string \<Rightarrow> string" where
  "env_or v d = (case v of None \<Rightarrow> d | Some s \<Rightarrow> if s = [] then d else s)"

definition defaultHost :: "world \<Rightarrow> string" where
  "defaultHost w = env_or (HOST w) ''https://clob.polymarket.com''"

definition defaultChainId :: "world \<Rightarrow> jsnum" where
  "defaultChainId w = parseInt10 w (env_or (CHAIN_ID w) ''137'')"

definition defaultSignatureType :: "world \<Rightarrow> jsnum" where
  "defaultSignatureType w = parseInt10 w (env_or (SIGNATURE_TYPE w) ''1'')"

section \<open>The session registry (\<^verbatim>\<open>ClobClient\<close>, services/clobClient.ts)\<close>

text \<open>
  The static fields of class \<^verbatim>\<open>ClobClient\<close>, together with the allocation counter for
  client objects and the log of the calls made to the venue. A cached credential value
  may be \<^verbatim>\<open>null\<close> (\<open>Some None\<close>): the cache is written before the result is checked.
\<close>

record registry =
  instance_field :: "polyClient option"
  clientCache :: "string \<rightharpoonup> polyClient"
  credsCache :: "string \<rightharpoonup> creds option"
  nextId :: nat
  trace :: "netcall list"

text \<open>\<^verbatim>\<open>const cacheKey = `${privateKey}-${funderAddress}`\<close>\<close>

definition cacheKey :: "world \<Rightarrow> jsval \<Rightarrow> jsval \<Rightarrow> string" where
  "cacheKey w privateKey funderAddress =
     toStringJS w privateKey @ ''-'' @ toStringJS w funderAddress"

text \<open>
  The tail of \<^verbatim>\<open>getInstanceWithCredentials\<close>: build the authenticated client (a fresh
  object), cache it under the key and return it.
\<close>

definition newSession ::
  "registry \<Rightarrow> string \<Rightarrow> string \<Rightarrow> jsnum \<Rightarrow> jsval \<Rightarrow> creds option \<Rightarrow> jsnum \<Rightarrow> jsval
    \<Rightarrow> (jserror + polyClient) \<times> registry" where
  "newSession st key host chainId signer cr signatureType funderAddress =
     (let client = \<lparr>cl_id = nextId st, cl_host = host, cl_chainId = chainId,
                     cl_signer = signer, cl_creds = cr,
                     cl_signatureType = Some signatureType,
                     cl_funderAddress = funderAddress\<rparr>
      in (Inr client,
          st\<lparr>nextId := Suc (nextId st), clientCache := (clientCache st)(key \<mapsto> client)\<rparr>))"

definition getInstanceWithCredentials ::
  "world \<Rightarrow> registry \<Rightarrow> jsval \<Rightarrow> jsval \<Rightarrow> string \<Rightarrow> jsnum \<Rightarrow> jsnum
    \<Rightarrow> (jserror + polyClient) \<times> registry" where
  "getInstanceWithCredentials w st privateKey funderAddress host chainId signatureType =
     (let key = cacheKey w privateKey funderAddress in
      case clientCache st key of
        Some client \<Rightarrow> (Inr client, st)
      | None \<Rightarrow>
          if \<not> truthy privateKey then (Inl (Error ''privateKey is required''), st)
          else if \<not> truthy funderAddress then (Inl (Error ''funderAddress is required''), st)
          else
            (case newWallet w privateKey of
               Some e \<Rightarrow> (Inl e, st)
             | None \<Rightarrow>
                 let tempClient = \<lparr>cl_id = nextId st, cl_host = host, cl_chainId = chainId,
                                     cl_signer = privateKey, cl_creds = None,
                                     cl_signatureType = None,
                                     cl_funderAddress = JUndefined\<rparr>;
                     st1 = st\<lparr>nextId := Suc (nextId st)\<rparr>
                 in
                 (case credsCache st1 key of
                    Some cr \<Rightarrow>
                      newSession st1 key host chainId privateKey cr signatureType funderAddress
                  | None \<Rightarrow>
                      let st2 = st1\<lparr>trace := trace st1 @ [NetCreateOrDeriveApiKey tempClient]\<rparr>
                      in
                      (case createOrDeriveApiKey w (trace st1) tempClient of
                         Inl error \<Rightarrow>
                           (Inl (Error (''Failed to create API key: ''
                                   @ message_or error ''Unknown error''
                                   @ ''. Please check your privateKey and ensure your wallet is properly configured.'')),
                            st2)
                       | Inr cr \<Rightarrow>
                           let st3 = st2\<lparr>credsCache := (credsCache st2)(key \<mapsto> cr)\<rparr> in
                           if cr = None
                           then (Inl (Error ''API key creation returned null/undefined''), st3)
                           else newSession st3 key host chainId privateKey cr signatureType
                                  funderAddress))))"

definition getInstance :: "world \<Rightarrow> registry \<Rightarrow> (jserror + polyClient) \<times> registry" where
  "getInstance w st =
     (case instance_field st of
        Some client \<Rightarrow> (Inr client, st)
      | None \<Rightarrow>
          let privateKey = envVal (PRIVATE_KEY w);
              funder = envVal (FUNDER_ADDRESS w);
              host = defaultHost w;
              chainId = defaultChainId w;
              signatureType = defaultSignatureType w
          in
          if \<not> truthy privateKey
          then (Inl (Error ''PRIVATE_KEY environment variable is required''), st)
          else if \<not> truthy funder
          then (Inl (Error ''FUNDER_ADDRESS environment variable is required''), st)
          else getInstanceWithCredentials w st privateKey funder host chainId signatureType)"

text \<open>
  \<^verbatim>\<open>getMarketInfo(tokenID, client?)\<close> returns \<^verbatim>\<open>{ tickSize, exists: true }\<close>, or throws:
  a venue error with status 404 or a \<^verbatim>\<open>data.error\<close> text that includes "not found"
  becomes the market-not-found error, any other error is rethrown as it is.
\<close>

record marketInfo =
  mi_tickSize :: jsval
  mi_exists :: bool

definition isNotFound :: "jserror \<Rightarrow> bool" where
  "isNotFound error =
     (err_status error = Some 404 \<or>
      (case err_dataError error of None \<Rightarrow> False | Some d \<Rightarrow> str_includes d ''not found''))"

definition getMarketInfo ::
  "world \<Rightarrow> registry \<Rightarrow> jsval \<Rightarrow> polyClient option \<Rightarrow> (jserror + marketInfo) \<times> registry" where
  "getMarketInfo w st tokenID client =
     (case (case client of Some c \<Rightarrow> (Inr c, st) | None \<Rightarrow> getInstance w st) of
        (Inl e, st1) \<Rightarrow> (Inl e, st1)
      | (Inr clobClient, st1) \<Rightarrow>
          let st2 = st1\<lparr>trace := trace st1 @ [NetGetTickSize clobClient tokenID]\<rparr> in
          (case getTickSize w (trace st1) clobClient tokenID of
             Inr tickSize \<Rightarrow> (Inr \<lparr>mi_tickSize = tickSize, mi_exists = True\<rparr>, st2)
           | Inl error \<Rightarrow>
               if isNotFound error
               then (Inl (Error (''Market not found for tokenID: '' @ toStringJS w tokenID
                            @ ''. Please verify the tokenID is correct and the market exists.'')),
                     st2)
               else (Inl error, st2)))"

subsection \<open>\<^verbatim>\<open>createAndPostOrder\<close>\<close>

record orderParams =
  op_tokenID :: jsval
  op_price :: jsval
  op_side :: jsval
  op_size :: jsval
  op_expiration :: jsval

record marketParams =
  mp_tickSize :: jsval
  mp_negRisk :: jsval

text \<open>
  The first statement of \<^verbatim>\<open>createAndPostOrder\<close>: the client of the given credentials,
  or the client of the environment's pair when none are given. The host, chain id and
  signature type are the default arguments of \<^verbatim>\<open>getInstanceWithCredentials\<close>.
\<close>

definition acquireClient ::
  "world \<Rightarrow> registry \<Rightarrow> (jsval \<times> jsval) option \<Rightarrow> (jserror + polyClient) \<times> registry" where
  "acquireClient w st credentials =
     (case credentials of
        Some (privateKey, funderAddress) \<Rightarrow>
          getInstanceWithCredentials w st privateKey funderAddress
            (defaultHost w) (defaultChainId w) (defaultSignatureType w)
      | None \<Rightarrow> getInstance w st)"

text \<open>
  The tick size of the request, or the market's when the request gives none (a falsy
  value: absent, \<^verbatim>\<open>null\<close>, the empty string, zero); an error of the lookup is wrapped,
  and a tick size that is still falsy afterwards is an error.
\<close>

definition resolveTickSize ::
  "world \<Rightarrow> registry \<Rightarrow> polyClient \<Rightarrow> jsval \<Rightarrow> jsval \<Rightarrow> (jserror + jsval) \<times> registry" where
  "resolveTickSize w st client tokenID tickSize0 =
     (case (if \<not> truthy tickSize0
            then (case getMarketInfo w st tokenID (Some client) of
                    (Inr marketInfo, st1) \<Rightarrow> (Inr (mi_tickSize marketInfo), st1)
                  | (Inl error, st1) \<Rightarrow>
                      (Inl (Error (''Failed to get market info: '' @ message_text error
                              @ ''. Please provide tickSize manually or use a valid tokenID.'')),
                       st1))
            else (Inr tickSize0, st)) of
        (Inl e, st1) \<Rightarrow> (Inl e, st1)
      | (Inr tickSize, st1) \<Rightarrow>
          if \<not> truthy tickSize \<or> tickSize = JStr []
          then (Inl (Error ''tickSize is required but could not be determined from market''), st1)
          else (Inr tickSize, st1))"

text \<open>The \<^verbatim>\<open>catch\<close> block around the submission.\<close>

definition rewriteSubmitError :: "world \<Rightarrow> jsval \<Rightarrow> jserror \<Rightarrow> jserror" where
  "rewriteSubmitError w tokenID error =
     (if err_status error = Some 404
      then Error (''Market not found for tokenID: '' @ toStringJS w tokenID
             @ ''. Please verify the tokenID is correct.'')
      else if (case err_message error of None \<Rightarrow> False | Some m \<Rightarrow> str_includes m ''toString'')
      then Error (''Invalid market parameters. Market may not exist or tickSize may be incorrect. Original error: ''
             @ message_text error)
      else error)"

definition orderTypeError :: "world \<Rightarrow> jsval \<Rightarrow> jserror" where
  "orderTypeError w orderType =
     Error (''Order type '' @ toStringJS w orderType
       @ '' requires createAndPostMarketOrder which needs a different order structure. Please use GTC or GTD for limit orders.'')"

definition createAndPostOrder ::
  "world \<Rightarrow> registry \<Rightarrow> orderParams \<Rightarrow> marketParams \<Rightarrow> jsval \<Rightarrow> (jsval \<times> jsval) option
    \<Rightarrow> (jserror + jsval) \<times> registry" where
  "createAndPostOrder w st orderParams marketParams orderType credentials =
     (case acquireClient w st credentials of
        (Inl e, st1) \<Rightarrow> (Inl e, st1)
      | (Inr client, st1) \<Rightarrow>
          (case resolveTickSize w st1 client (op_tokenID orderParams) (mp_tickSize marketParams) of
             (Inl e, st2) \<Rightarrow> (Inl e, st2)
           | (Inr tickSize, st2) \<Rightarrow>
               let sideEnum = (if op_side orderParams = JStr ''BUY'' then BUY else SELL) in
               if orderType = JStr ''FOK'' \<or> orderType = JStr ''FAK''
               then (Inl (rewriteSubmitError w (op_tokenID orderParams)
                            (orderTypeError w orderType)), st2)
               else
                 let orderTypeEnum = (if orderType = JStr ''GTD'' then GTD else GTC);
                     order = \<lparr>uo_tokenID = op_tokenID orderParams,
                              uo_price = op_price orderParams,
                              uo_side = sideEnum,
                              uo_size = op_size orderParams\<rparr>;
                     options = \<lparr>oo_tickSize = tickSize,
                                oo_negRisk = js_coalesce (mp_negRisk marketParams) (JBool False)\<rparr>;
                     st3 = st2\<lparr>trace := trace st2
                                  @ [NetCreateAndPostOrder client order options orderTypeEnum]\<rparr>
                 in
                 (case createAndPostOrder_upstream w (trace st2) client order options orderTypeEnum of
                    Inr response \<Rightarrow> (Inr response, st3)
                  | Inl error \<Rightarrow>
                      (Inl (rewriteSubmitError w (op_tokenID orderParams) error), st3))))"

subsection \<open>\<^verbatim>\<open>createAndPostMarketOrder\<close>\<close>

text \<open>The arguments of the market-order call, as routes/orders.ts passes them.\<close>

record marketOrderParams =
  mop_tokenID :: jsval
  mop_amount :: jsval
  mop_side :: jsval
  mop_orderType :: jsval

text \<open>
  Modelled from the spec: \<^verbatim>\<open>ClobClient.createAndPostMarketOrder\<close>, which routes/orders.ts
  calls and services/clobClient.ts does not contain. The definition follows section 4.4 of
  the specification: the session of the resolved credentials (4.2); the market resolver
  (4.3) only if the tick size is absent, its failure aborting the request with the
  resolver's own error, and a tick size that is still empty being fatal; the side and the
  time in force mapped to the venue's codes (the market vocabulary is FOK and FAK); the
  session's market-order submission; a 404 of the venue and a message mentioning
  "toString" rewritten, every other error passed on.
\<close>

definition createAndPostMarketOrder ::
  "world \<Rightarrow> registry \<Rightarrow> marketOrderParams \<Rightarrow> jsval \<Rightarrow> jsval \<Rightarrow> (jsval \<times> jsval) option
    \<Rightarrow> (jserror + jsval) \<times> registry" where
  "createAndPostMarketOrder w st orderParams tickSize0 orderType credentials =
     (case acquireClient w st credentials of
        (Inl e, st1) \<Rightarrow> (Inl e, st1)
      | (Inr client, st1) \<Rightarrow>
          (case (if \<not> truthy tickSize0
                 then (case getMarketInfo w st1 (mop_tokenID orderParams) (Some client) of
                         (Inr marketInfo, st2) \<Rightarrow> (Inr (mi_tickSize marketInfo), st2)
                       | (Inl error, st2) \<Rightarrow> (Inl error, st2))
                 else (Inr tickSize0, st1)) of
             (Inl e, st2) \<Rightarrow> (Inl e, st2)
           | (Inr tickSize, st2) \<Rightarrow>
               if \<not> truthy tickSize
               then (Inl (Error ''tickSize is required but could not be determined from market''),
                     st2)
               else
                 (case (if orderType = JStr ''FOK'' then Some FOK
                        else if orderType = JStr ''FAK'' then Some FAK else None) of
                    None \<Rightarrow>
                      (Inl (Error (''Order type '' @ toStringJS w orderType
                              @ '' is not a market order type'')), st2)
                  | Some orderTypeEnum \<Rightarrow>
                      let order = \<lparr>mo_tokenID = mop_tokenID orderParams,
                                   mo_amount = mop_amount orderParams,
                                   mo_side = (if mop_side orderParams = JStr ''BUY''
                                              then BUY else SELL)\<rparr>;
                          st3 = st2\<lparr>trace := trace st2
                                  @ [NetCreateAndPostMarketOrder client order tickSize orderTypeEnum]\<rparr>
                      in
                      (case createAndPostMarketOrder_upstream w (trace st2) client order tickSize
                              orderTypeEnum of
                         Inr response \<Rightarrow> (Inr response, st3)
                       | Inl error \<Rightarrow>
                           (Inl (rewriteSubmitError w (mop_tokenID orderParams) error), st3)))))"

section \<open>The HTTP handlers (routes/orders.ts)\<close>

text \<open>The fields the handlers read from \<^verbatim>\<open>req.body\<close>.\<close>

record orderRequest =
  rq_tokenID :: jsval
  rq_price :: jsval
  rq_side :: jsval
  rq_size :: jsval
  rq_amount :: jsval
  rq_orderType :: jsval
  rq_tickSize :: jsval
  rq_negRisk :: jsval
  rq_expiration :: jsval
  rq_privateKey :: jsval
  rq_funderAddress :: jsval

text \<open>
  A response: the status and the fields of the JSON object sent, in order.
  \<^verbatim>\<open>res.json\<close> serialises with \<^verbatim>\<open>JSON.stringify\<close>, which leaves out a field whose
  value is \<^verbatim>\<open>undefined\<close>.
\<close>

record response =
  res_status :: nat
  res_body :: "(string \<times> jsval) list"

definition res_json :: "nat \<Rightarrow> (string \<times> jsval) list \<Rightarrow> response" where
  "res_json status obj =
     \<lparr>res_status = status, res_body = filter (\<lambda>kv. snd kv \<noteq> JUndefined) obj\<rparr>"

definition has_field :: "response \<Rightarrow> string \<Rightarrow> bool" where
  "has_field r k = (k \<in> fst ` set (res_body r))"

text \<open>
  The credential check that each of the three handlers repeats word for word:
  exactly one of \<^verbatim>\<open>privateKey\<close> and \<^verbatim>\<open>funderAddress\<close> given is an error, both given
  are the credentials of the call, neither leaves them \<^verbatim>\<open>undefined\<close>.
\<close>

definition pairingViolated :: "orderRequest \<Rightarrow> bool" where
  "pairingViolated orderRequest =
     ((truthy (rq_privateKey orderRequest) \<and> \<not> truthy (rq_funderAddress orderRequest)) \<or>
      (\<not> truthy (rq_privateKey orderRequest) \<and> truthy (rq_funderAddress orderRequest)))"

definition credentialsOf :: "orderRequest \<Rightarrow> (jsval \<times> jsval) option" where
  "credentialsOf orderRequest =
     (if truthy (rq_privateKey orderRequest) \<and> truthy (rq_funderAddress orderRequest)
      then Some (rq_privateKey orderRequest, rq_funderAddress orderRequest)
      else None)"

definition pairingMessage :: string where
  "pairingMessage =
     ''Both privateKey and funderAddress must be provided together, or neither (to use environment variables)''"

text \<open>The end of a handler: the success envelope, or the \<^verbatim>\<open>catch\<close> block's failure envelope.\<close>

definition respond :: "world \<Rightarrow> string \<Rightarrow> (jserror + jsval) \<Rightarrow> response" where
  "respond w fallback result =
     (case result of
        Inr resp \<Rightarrow>
          res_json 200 [(''success'', JBool True), (''data'', resp), (''timestamp'', JStr (now w))]
      | Inl error \<Rightarrow>
          res_json 500 [(''success'', JBool False), (''error'', JStr (message_or error fallback)),
                        (''timestamp'', JStr (now w))])"

text \<open>\<^verbatim>\<open>router.post("/limit", ...)\<close>\<close>

definition limitHandler :: "world \<Rightarrow> registry \<Rightarrow> orderRequest \<Rightarrow> response \<times> registry" where
  "limitHandler w st orderRequest =
     (if \<not> truthy (rq_tokenID orderRequest)
      then (res_json 400 [(''error'', JStr ''tokenID is required'')], st)
      else if rq_price orderRequest = JUndefined \<or> rq_price orderRequest = JNull
      then (res_json 400 [(''error'', JStr ''price is required'')], st)
      else if \<not> truthy (rq_side orderRequest)
      then (res_json 400 [(''error'', JStr ''side is required (BUY or SELL)'')], st)
      else if rq_size orderRequest = JUndefined \<or> rq_size orderRequest = JNull
      then (res_json 400 [(''error'', JStr ''size is required'')], st)
      else if pairingViolated orderRequest
      then (res_json 400 [(''error'', JStr pairingMessage)], st)
      else
        (case createAndPostOrder w st
                \<lparr>op_tokenID = rq_tokenID orderRequest, op_price = rq_price orderRequest,
                 op_side = rq_side orderRequest, op_size = rq_size orderRequest,
                 op_expiration = rq_expiration orderRequest\<rparr>
                \<lparr>mp_tickSize = rq_tickSize orderRequest,
                 mp_negRisk = js_coalesce (rq_negRisk orderRequest) (JBool False)\<rparr>
                (js_or (rq_orderType orderRequest) (JStr ''GTC''))
                (credentialsOf orderRequest) of
           (result, st1) \<Rightarrow> (respond w ''Failed to create limit order'' result, st1)))"

text \<open>\<^verbatim>\<open>router.post("/market", ...)\<close>\<close>

definition marketHandler :: "world \<Rightarrow> registry \<Rightarrow> orderRequest \<Rightarrow> response \<times> registry" where
  "marketHandler w st orderRequest =
     (if \<not> truthy (rq_tokenID orderRequest)
      then (res_json 400 [(''error'', JStr ''tokenID is required'')], st)
      else if rq_amount orderRequest = JUndefined \<or> rq_amount orderRequest = JNull
              \<or> le_zero w (rq_amount orderRequest)
      then (res_json 400 [(''error'', JStr ''amount is required and must be greater than 0'')], st)
      else if \<not> truthy (rq_side orderRequest)
      then (res_json 400 [(''error'', JStr ''side is required (BUY or SELL)'')], st)
      else if \<not> truthy (rq_orderType orderRequest)
              \<or> rq_orderType orderRequest \<notin> set [JStr ''FOK'', JStr ''FAK'']
      then (res_json 400
              [(''error'', JStr ''orderType is required and must be either FOK or FAK'')], st)
      else if pairingViolated orderRequest
      then (res_json 400 [(''error'', JStr pairingMessage)], st)
      else
        (case createAndPostMarketOrder w st
                \<lparr>mop_tokenID = rq_tokenID orderRequest, mop_amount = rq_amount orderRequest,
                 mop_side = rq_side orderRequest, mop_orderType = rq_orderType orderRequest\<rparr>
                (rq_tickSize orderRequest)
                (rq_orderType orderRequest)
                (credentialsOf orderRequest) of
           (result, st1) \<Rightarrow> (respond w ''Failed to create market order'' result, st1)))"

text \<open>\<^verbatim>\<open>router.post("/", ...)\<close>, the legacy endpoint.\<close>

definition legacyHandler :: "world \<Rightarrow> registry \<Rightarrow> orderRequest \<Rightarrow> response \<times> registry" where
  "legacyHandler w st orderRequest =
     (if \<not> truthy (rq_tokenID orderRequest)
      then (res_json 400 [(''error'', JStr ''tokenID is required'')], st)
      else if rq_price orderRequest = JUndefined \<or> rq_price orderRequest = JNull
      then (res_json 400 [(''error'', JStr ''price is required'')], st)
      else if \<not> truthy (rq_side orderRequest)
      then (res_json 400 [(''error'', JStr ''side is required (BUY or SELL)'')], st)
      else if rq_size orderRequest = JUndefined \<or> rq_size orderRequest = JNull
      then (res_json 400 [(''error'', JStr ''size is required'')], st)
      else if pairingViolated orderRequest
      then (res_json 400 [(''error'', JStr pairingMessage)], st)
      else
        (case createAndPostOrder w st
                \<lparr>op_tokenID = rq_tokenID orderRequest, op_price = rq_price orderRequest,
                 op_side = rq_side orderRequest, op_size = rq_size orderRequest,
                 op_expiration = rq_expiration orderRequest\<rparr>
                \<lparr>mp_tickSize = rq_tickSize orderRequest,
                 mp_negRisk = js_coalesce (rq_negRisk orderRequest) (JBool False)\<rparr>
                (js_or (rq_orderType orderRequest) (JStr ''GTC''))
                (credentialsOf orderRequest) of
           (result, st1) \<Rightarrow> (respond w ''Failed to create order'' result, st1)))"

section \<open>A concrete process\<close>

text \<open>
  A venue in which every call succeeds, and an empty registry: the state of a process
  that has served no request yet.
\<close>

text \<open>
  Signing keys (32 bytes in hexadecimal) and funder addresses (20 bytes) of the examples.
  The wallet library of the example venue accepts exactly the strings made of \<open>0x\<close> and
  64 hexadecimal digits, and throws on everything else.
\<close>

definition keyA :: string where
  "keyA = ''0x0101010101010101010101010101010101010101010101010101010101010101''"

definition envKey :: string where
  "envKey = ''0x0202020202020202020202020202020202020202020202020202020202020202''"

definition funderA :: string where
  "funderA = ''0x0a0a0a0a0a0a0a0a0a0a0a0a0a0a0a0a0a0a0a0a''"

definition envFunder :: string where
  "envFunder = ''0x0b0b0b0b0b0b0b0b0b0b0b0b0b0b0b0b0b0b0b0b''"

definition isPrivateKey :: "jsval \<Rightarrow> bool" where
  "isPrivateKey k =
     (case k of
        JStr s \<Rightarrow> length s = 66 \<and> take 2 s = ''0x'' \<and>
                  list_all (\<lambda>c. c \<in> set ''0123456789abcdefABCDEF'') (drop 2 s)
      | _ \<Rightarrow> False)"

definition creds0 :: creds where
  "creds0 = ApiKeyCreds ''key'' ''secret'' ''passphrase''"

definition world0 :: world where
  "world0 =
     \<lparr>PRIVATE_KEY = Some envKey, FUNDER_ADDRESS = Some envFunder,
      HOST = None, CHAIN_ID = None, SIGNATURE_TYPE = None,
      parseInt10 = (\<lambda>s. if s = ''137'' then Fin 137 else if s = ''1'' then Fin 1 else NaN),
      toStringOther = (\<lambda>v. ''[object Object]''),
      toNumberOther = (\<lambda>v. NaN),
      newWallet = (\<lambda>k. if isPrivateKey k then None else Some (Error ''invalid private key'')),
      createOrDeriveApiKey = (\<lambda>tr c. Inr (Some creds0)),
      getTickSize = (\<lambda>tr c t. Inr (JStr ''0.01'')),
      createAndPostOrder_upstream = (\<lambda>tr c ord opts ot. Inr (JObject ''{orderID: 1}'')),
      createAndPostMarketOrder_upstream = (\<lambda>tr c ord ts ot. Inr (JObject ''{orderID: 2}'')),
      now = ''2024-01-01T00:00:00.000Z''\<rparr>"

definition registry0 :: registry where
  "registry0 =
     \<lparr>instance_field = None, clientCache = Map.empty, credsCache = Map.empty,
      nextId = 0, trace = []\<rparr>"

definition emptyBody :: orderRequest where
  "emptyBody =
     \<lparr>rq_tokenID = JUndefined, rq_price = JUndefined, rq_side = JUndefined,
      rq_size = JUndefined, rq_amount = JUndefined, rq_orderType = JUndefined,
      rq_tickSize = JUndefined, rq_negRisk = JUndefined, rq_expiration = JUndefined,
      rq_privateKey = JUndefined, rq_funderAddress = JUndefined\<rparr>"

section \<open>Observations on the log of venue calls, and concrete inputs\<close>

text \<open>How often the credential derivation has been called, and how many orders were submitted.\<close>

definition derivations :: "netcall list \<Rightarrow> nat" where
  "derivations tr =
     length (filter (\<lambda>c. case c of NetCreateOrDeriveApiKey x \<Rightarrow> True | _ \<Rightarrow> False) tr)"

definition submissions :: "netcall list \<Rightarrow> nat" where
  "submissions tr =
     length (filter (\<lambda>c. case c of NetCreateAndPostOrder x y z t \<Rightarrow> True
                              | NetCreateAndPostMarketOrder x y z t \<Rightarrow> True
                              | _ \<Rightarrow> False) tr)"

text \<open>
  Two different credential pairs, and the session the registry builds for the first of
  them in the fresh process.
\<close>

definition pairA :: "jsval \<times> jsval" where
  "pairA = (JStr keyA, JStr (funderA @ ''-1''))"

definition pairB :: "jsval \<times> jsval" where
  "pairB = (JStr (keyA @ ''-'' @ funderA), JStr ''1'')"

definition tempA :: polyClient where
  "tempA = \<lparr>cl_id = 0, cl_host = ''https://clob.polymarket.com'', cl_chainId = Fin 137,
      cl_signer = JStr keyA, cl_creds = None, cl_signatureType = None,
      cl_funderAddress = JUndefined\<rparr>"

definition sessionA :: polyClient where
  "sessionA = \<lparr>cl_id = 1, cl_host = ''https://clob.polymarket.com'', cl_chainId = Fin 137,
      cl_signer = JStr keyA, cl_creds = Some creds0, cl_signatureType = Some (Fin 1),
      cl_funderAddress = JStr (funderA @ ''-1'')\<rparr>"

definition afterA :: registry where
  "afterA = snd (acquireClient world0 registry0 (Some pairA))"

text \<open>
  The checks of the limit handlers and of the market handler, as one predicate each,
  and the call to the order service that a limit handler makes once the checks pass.
\<close>

definition limitValid :: "orderRequest \<Rightarrow> bool" where
  "limitValid r =
     (truthy (rq_tokenID r) \<and> rq_price r \<noteq> JUndefined \<and> rq_price r \<noteq> JNull \<and>
      truthy (rq_side r) \<and> rq_size r \<noteq> JUndefined \<and> rq_size r \<noteq> JNull \<and>
      (truthy (rq_privateKey r) = truthy (rq_funderAddress r)))"

definition marketValid :: "world \<Rightarrow> orderRequest \<Rightarrow> bool" where
  "marketValid w r =
     (truthy (rq_tokenID r) \<and> rq_amount r \<noteq> JUndefined \<and> rq_amount r \<noteq> JNull \<and>
      (case toNumberJS w (rq_amount r) of NaN \<Rightarrow> True | Fin a \<Rightarrow> 0 < a) \<and>
      truthy (rq_side r) \<and>
      (rq_orderType r = JStr ''FOK'' \<or> rq_orderType r = JStr ''FAK'') \<and>
      (truthy (rq_privateKey r) = truthy (rq_funderAddress r)))"

definition limitService :: "world \<Rightarrow> registry \<Rightarrow> orderRequest \<Rightarrow> (jserror + jsval) \<times> registry" where
  "limitService w st r =
     createAndPostOrder w st
       \<lparr>op_tokenID = rq_tokenID r, op_price = rq_price r, op_side = rq_side r,
        op_size = rq_size r, op_expiration = rq_expiration r\<rparr>
       \<lparr>mp_tickSize = rq_tickSize r, mp_negRisk = js_coalesce (rq_negRisk r) (JBool False)\<rparr>
       (js_or (rq_orderType r) (JStr ''GTC''))
       (credentialsOf r)"

definition marketService :: "world \<Rightarrow> registry \<Rightarrow> orderRequest \<Rightarrow> (jserror + jsval) \<times> registry" where
  "marketService w st r =
     createAndPostMarketOrder w st
       \<lparr>mop_tokenID = rq_tokenID r, mop_amount = rq_amount r, mop_side = rq_side r,
        mop_orderType = rq_orderType r\<rparr>
       (rq_tickSize r) (rq_orderType r) (credentialsOf r)"

text \<open>The order that the limit service hands to the venue, with the tick size \<open>t\<close>.\<close>

definition limitOrder :: "orderRequest \<Rightarrow> userOrder" where
  "limitOrder r =
     \<lparr>uo_tokenID = rq_tokenID r, uo_price = rq_price r,
      uo_side = (if rq_side r = JStr ''BUY'' then BUY else SELL), uo_size = rq_size r\<rparr>"

definition limitOptions :: "orderRequest \<Rightarrow> jsval \<Rightarrow> orderOptions" where
  "limitOptions r t =
     \<lparr>oo_tickSize = t, oo_negRisk = js_coalesce (rq_negRisk r) (JBool False)\<rparr>"

definition marketOrder :: "orderRequest \<Rightarrow> userMarketOrder" where
  "marketOrder r =
     \<lparr>mo_tokenID = rq_tokenID r, mo_amount = rq_amount r,
      mo_side = (if rq_side r = JStr ''BUY'' then BUY else SELL)\<rparr>"

definition failure :: "world \<Rightarrow> string \<Rightarrow> response" where
  "failure w m =
     \<lparr>res_status = 500,
      res_body = [(''success'', JBool False), (''error'', JStr m), (''timestamp'', JStr (now w))]\<rparr>"

definition success :: "world \<Rightarrow> jsval \<Rightarrow> response" where
  "success w d =
     res_json 200 [(''success'', JBool True), (''data'', d), (''timestamp'', JStr (now w))]"

definition badRequest :: "string \<Rightarrow> response" where
  "badRequest m = \<lparr>res_status = 400, res_body = [(''error'', JStr m)]\<rparr>"

text \<open>
  Concrete requests, and the session of the environment's credential pair in the fresh
  process.
\<close>

definition okRequest :: orderRequest where
  "okRequest =
     emptyBody\<lparr>rq_tokenID := JStr ''0xabc'', rq_price := JNum (Fin 0.5),
               rq_side := JStr ''BUY'', rq_size := JNum (Fin 10)\<rparr>"

definition okMarketRequest :: orderRequest where
  "okMarketRequest =
     emptyBody\<lparr>rq_tokenID := JStr ''0xabc'', rq_amount := JNum (Fin 100),
               rq_side := JStr ''BUY'', rq_orderType := JStr ''FOK''\<rparr>"

definition tempEnv :: polyClient where
  "tempEnv = \<lparr>cl_id = 0, cl_host = ''https://clob.polymarket.com'', cl_chainId = Fin 137,
      cl_signer = JStr envKey, cl_creds = None, cl_signatureType = None,
      cl_funderAddress = JUndefined\<rparr>"

definition envSession :: polyClient where
  "envSession = \<lparr>cl_id = 1, cl_host = ''https://clob.polymarket.com'', cl_chainId = Fin 137,
      cl_signer = JStr envKey, cl_creds = Some creds0, cl_signatureType = Some (Fin 1),
      cl_funderAddress = JStr envFunder\<rparr>"

definition afterEnv :: registry where
  "afterEnv =
     \<lparr>instance_field = None,
      clientCache = [envKey @ ''-'' @ envFunder \<mapsto> envSession],
      credsCache = [envKey @ ''-'' @ envFunder \<mapsto> Some creds0],
      nextId = 2, trace = [NetCreateOrDeriveApiKey tempEnv]\<rparr>"

definition fokRequest :: orderRequest where
  "fokRequest = okRequest\<lparr>rq_orderType := JStr ''FOK''\<rparr>"

definition holdRequest :: orderRequest where
  "holdRequest = okRequest\<lparr>rq_side := JStr ''HOLD''\<rparr>"

definition noSideRequest :: orderRequest where
  "noSideRequest = okRequest\<lparr>rq_side := JUndefined\<rparr>"

definition xyzRequest :: orderRequest where
  "xyzRequest = okRequest\<lparr>rq_orderType := JStr ''XYZ''\<rparr>"

definition keyOnlyRequest :: orderRequest where
  "keyOnlyRequest = okRequest\<lparr>rq_privateKey := JStr keyA\<rparr>"

definition pairRequest :: orderRequest where
  "pairRequest =
     okRequest\<lparr>rq_privateKey := JStr keyA, rq_funderAddress := JStr (funderA @ ''-1'')\<rparr>"

text \<open>
  Venues that differ from the one above in one answer: the order submission throws an
  error with an empty message; the tick size lookup answers 404; the tick size lookup
  answers the empty string.
\<close>

definition worldSilent :: world where
  "worldSilent = world0\<lparr>createAndPostOrder_upstream := (\<lambda>tr c ord opts ot. Inl (Error []))\<rparr>"

definition error404 :: jserror where
  "error404 = \<lparr>err_message = Some ''Request failed with status code 404'',
                err_status = Some 404, err_dataError = None\<rparr>"

definition world404 :: world where
  "world404 = world0\<lparr>getTickSize := (\<lambda>tr c t. Inl error404)\<rparr>"

definition worldNoTick :: world where
  "worldNoTick = world0\<lparr>getTickSize := (\<lambda>tr c t. Inr (JStr []))\<rparr>"

definition afterTick :: registry where
  "afterTick = afterEnv\<lparr>trace := trace afterEnv @ [NetGetTickSize envSession (JStr ''0xabc'')]\<rparr>"

definition marketType :: "orderRequest \<Rightarrow> OrderType" where
  "marketType r = (if rq_orderType r = JStr ''FOK'' then FOK else FAK)"

definition emptyTickRequest :: orderRequest where
  "emptyTickRequest = okRequest\<lparr>rq_tickSize := JStr []\<rparr>"

definition notFoundMessage :: "world \<Rightarrow> jsval \<Rightarrow> string" where
  "notFoundMessage w tokenID =
     ''Failed to get market info: '' @ (''Market not found for tokenID: '' @ toStringJS w tokenID)
       @ ''. Please verify the tokenID is correct and the market exists.. Please provide tickSize manually or use a valid tokenID.''"

text \<open>
  The client on which a venue call is made; \<open>callsOn c st1 st2\<close> says that the log of
  \<open>st2\<close> is the log of \<open>st1\<close> followed by calls that are all made on the client \<open>c\<close>.
\<close>

fun callClient :: "netcall \<Rightarrow> polyClient" where
  "callClient (NetCreateOrDeriveApiKey c) = c"
| "callClient (NetGetTickSize c t) = c"
| "callClient (NetCreateAndPostOrder c ord opts ot) = c"
| "callClient (NetCreateAndPostMarketOrder c ord t ot) = c"

definition callsOn :: "polyClient \<Rightarrow> registry \<Rightarrow> registry \<Rightarrow> bool" where
  "callsOn c st1 st2 =
     (take (length (trace st1)) (trace st2) = trace st1 \<and>
      list_all (\<lambda>n. callClient n = c) (drop (length (trace st1)) (trace st2)))"

text \<open>
  What the handlers make of the outcome of a session acquisition from the state \<open>st\<close>:
  if it threw, a request that passes the checks is answered with the failure envelope of
  that error in the state the acquisition left; if it returned a session, every venue
  call the handler makes afterwards is made on that session.
\<close>

definition servedBy ::
  "world \<Rightarrow> registry \<Rightarrow> orderRequest \<Rightarrow> (jserror + polyClient) \<times> registry \<Rightarrow> bool" where
  "servedBy w st r acquired =
     (case acquired of
        (Inl e, st1) \<Rightarrow>
          (limitValid r \<longrightarrow>
             limitHandler w st r = (failure w (message_or e ''Failed to create limit order''), st1) \<and>
             legacyHandler w st r = (failure w (message_or e ''Failed to create order''), st1)) \<and>
          (marketValid w r \<longrightarrow>
             marketHandler w st r
               = (failure w (message_or e ''Failed to create market order''), st1))
      | (Inr c, st1) \<Rightarrow>
          (limitValid r \<longrightarrow>
             callsOn c st1 (snd (limitHandler w st r)) \<and>
             callsOn c st1 (snd (legacyHandler w st r))) \<and>
          (marketValid w r \<longrightarrow> callsOn c st1 (snd (marketHandler w st r))))"

definition pairMarketRequest :: orderRequest where
  "pairMarketRequest =
     okMarketRequest\<lparr>rq_privateKey := JStr keyA, rq_funderAddress := JStr (funderA @ ''-1'')\<rparr>"

section \<open>Properties of the session registry\<close>

lemma key_simps [simp]:
  "keyA \<noteq> []" "envKey \<noteq> []" "funderA \<noteq> []" "envFunder \<noteq> []"
  "isPrivateKey (JStr keyA)" "isPrivateKey (JStr envKey)"
  "\<not> isPrivateKey (JStr (keyA @ ''-'' @ funderA))"
  by (simp_all add: keyA_def envKey_def funderA_def envFunder_def isPrivateKey_def)

lemma world0_simps:
  "defaultHost world0 = ''https://clob.polymarket.com''"
  "defaultChainId world0 = Fin 137"
  "defaultSignatureType world0 = Fin 1"
  "newWallet world0 k = (if isPrivateKey k then None else Some (Error ''invalid private key''))"
  "createOrDeriveApiKey world0 tr c = Inr (Some creds0)"
  "getTickSize world0 tr c t = Inr (JStr ''0.01'')"
  "createAndPostOrder_upstream world0 tr c ord opts ot = Inr (JObject ''{orderID: 1}'')"
  "createAndPostMarketOrder_upstream world0 tr c mord ts ot = Inr (JObject ''{orderID: 2}'')"
  "now world0 = ''2024-01-01T00:00:00.000Z''"
  "PRIVATE_KEY world0 = Some envKey"
  "FUNDER_ADDRESS world0 = Some envFunder"
  by (simp_all add: world0_def defaultHost_def defaultChainId_def defaultSignatureType_def
      env_or_def)

text \<open>A cached session is returned as it is, whatever the venue configuration of the call.\<close>

lemma getInstanceWithCredentials_hit:
  "clientCache st (cacheKey w privateKey funderAddress) = Some client \<Longrightarrow>
   getInstanceWithCredentials w st privateKey funderAddress host chainId signatureType
     = (Inr client, st)"
  by (simp add: getInstanceWithCredentials_def)

text \<open>A session that is returned is in the cache under the key of its pair.\<close>

lemma getInstanceWithCredentials_cached:
  assumes "getInstanceWithCredentials w st privateKey funderAddress host chainId signatureType
             = (Inr client, st1)"
  shows "clientCache st1 (cacheKey w privateKey funderAddress) = Some client"
  using assms
  by (auto simp: getInstanceWithCredentials_def Let_def newSession_def
      split: option.splits if_splits sum.splits)

text \<open>One call derives credentials at most once.\<close>

lemma getInstanceWithCredentials_derivations:
  assumes "getInstanceWithCredentials w st privateKey funderAddress host chainId signatureType
             = (r, st1)"
  shows "derivations (trace st1) \<le> derivations (trace st) + 1"
  using assms
  by (auto simp: getInstanceWithCredentials_def Let_def newSession_def derivations_def
      split: option.splits if_splits sum.splits)

lemma acquire_pairA:
  "acquireClient world0 registry0 (Some pairA) = (Inr sessionA, afterA)"
  "clientCache afterA (cacheKey world0 (fst pairA) (snd pairA)) = Some sessionA"
  "trace afterA = [NetCreateOrDeriveApiKey tempA]"
  by (simp_all add: afterA_def acquireClient_def pairA_def getInstanceWithCredentials_def
      world0_simps registry0_def cacheKey_def newSession_def sessionA_def tempA_def Let_def)

text \<open>
  The cache key splits back into its pair at the first hyphen: on signing keys without a
  hyphen (every hexadecimal key) the key of a pair of strings determines the pair.
\<close>

lemma split_at_first:
  "x \<notin> set xs \<Longrightarrow> x \<notin> set xs' \<Longrightarrow> xs @ x # ys = xs' @ x # ys'
     \<Longrightarrow> xs = xs' \<and> ys = ys'"
proof (induction xs arbitrary: xs')
  case Nil
  then show ?case by (cases xs') auto
next
  case (Cons a xs)
  then show ?case by (cases xs') auto
qed

lemma cacheKey_inj_without_hyphen:
  assumes "CHR ''-'' \<notin> set k1" "CHR ''-'' \<notin> set k2"
    and "cacheKey w (JStr k1) (JStr f1) = cacheKey w (JStr k2) (JStr f2)"
  shows "k1 = k2 \<and> f1 = f2"
  using assms split_at_first [of "CHR ''-''" k1 k2 f1 f2] by (simp add: cacheKey_def)

text \<open>
  C4. Two distinct credential pairs are mapped to distinct cache keys, and so to distinct
  sessions. The code does not achieve this: the key is the two strings joined by a
  hyphen, so the pair of the signing key \<open>keyA\<close> with the funder \<open>funderA-1\<close> and the
  pair of the string \<open>keyA-funderA\<close> with the funder \<open>1\<close> have the same key. The
  wallet accepts the first signing key and would throw on the second, but once the first
  pair has a session the cache is hit before the wallet is asked, and the second pair is
  handed that very session, which signs with the first pair's key and funds from the
  first pair's address.
\<close>

theorem cacheKey_collision:
  "pairA \<noteq> pairB \<and>
   cacheKey world0 (fst pairA) (snd pairA) = cacheKey world0 (fst pairB) (snd pairB) \<and>
   acquireClient world0 registry0 (Some pairA) = (Inr sessionA, afterA) \<and>
   acquireClient world0 afterA (Some pairB) = (Inr sessionA, afterA) \<and>
   cl_signer sessionA = fst pairA \<and> cl_funderAddress sessionA = snd pairA \<and>
   newWallet world0 (fst pairA) = None \<and>
   newWallet world0 (fst pairB) = Some (Error ''invalid private key'')"
proof -
  have k: "cacheKey world0 (fst pairA) (snd pairA) = cacheKey world0 (fst pairB) (snd pairB)"
    by (simp add: cacheKey_def pairA_def pairB_def)
  have "acquireClient world0 afterA (Some pairB) = (Inr sessionA, afterA)"
    using acquire_pairA(2) unfolding k
    by (simp add: acquireClient_def pairB_def getInstanceWithCredentials_hit)
  moreover have "newWallet world0 (fst pairA) = None"
    by (simp add: pairA_def world0_simps)
  moreover have "newWallet world0 (fst pairB) = Some (Error ''invalid private key'')"
    by (simp add: pairB_def world0_simps isPrivateKey_def keyA_def funderA_def)
  moreover have "pairA \<noteq> pairB"
    by (simp add: pairA_def pairB_def)
  moreover have "cl_signer sessionA = fst pairA \<and> cl_funderAddress sessionA = snd pairA"
    by (simp add: pairA_def sessionA_def)
  ultimately show ?thesis
    using k acquire_pairA(1) by simp
qed

text \<open>
  C5. If session acquisition for a credential pair returns a session, then a second
  acquisition for the same pair (with any venue configuration) returns the identical
  session object and leaves the registry, its log of venue calls included, as it was:
  over the two calls the credential derivation has been called at most once.
\<close>

theorem session_reuse:
  assumes "getInstanceWithCredentials w st privateKey funderAddress host chainId signatureType
             = (Inr session, st1)"
  shows "getInstanceWithCredentials w st1 privateKey funderAddress host' chainId' signatureType'
             = (Inr session, st1)
         \<and> derivations (trace st1) \<le> derivations (trace st) + 1"
  using getInstanceWithCredentials_hit [OF getInstanceWithCredentials_cached [OF assms]]
    getInstanceWithCredentials_derivations [OF assms]
  by simp

theorem session_reuse_witness:
  "getInstanceWithCredentials world0 registry0 (fst pairA) (snd pairA) (defaultHost world0)
       (defaultChainId world0) (defaultSignatureType world0) = (Inr sessionA, afterA)
   \<and> getInstanceWithCredentials world0 afterA (fst pairA) (snd pairA) [] NaN NaN
       = (Inr sessionA, afterA)
   \<and> derivations (trace registry0) = 0 \<and> derivations (trace afterA) = 1"
proof -
  have a: "getInstanceWithCredentials world0 registry0 (fst pairA) (snd pairA)
       (defaultHost world0) (defaultChainId world0) (defaultSignatureType world0)
       = (Inr sessionA, afterA)"
    using acquire_pairA(1) by (simp add: acquireClient_def pairA_def)
  have t: "derivations (trace registry0) = 0"
    by (simp add: registry0_def derivations_def)
  have t1: "derivations (trace afterA) = 1"
    by (simp add: acquire_pairA(3) derivations_def)
  show ?thesis
    using session_reuse [OF a, of "[]" NaN NaN] a t t1 by simp
qed

section \<open>Properties of the order service and the handlers\<close>

subsection \<open>Responses and validation\<close>

lemma respond_simps:
  "respond w fb (Inr d) = success w d"
  "respond w fb (Inl e) = failure w (message_or e fb)"
  by (simp_all add: respond_def success_def failure_def res_json_def)

lemma status_simps:
  "res_status (success w d) = 200"
  "res_status (failure w m) = 500"
  "res_status (badRequest m) = 400"
  "res_status (respond w fb x) \<noteq> 400"
  by (simp_all add: success_def failure_def badRequest_def res_json_def respond_def split: sum.splits)

lemma res_json_400: "res_json 400 [(''error'', JStr m)] = badRequest m"
  by (simp add: res_json_def badRequest_def)

lemma pairingViolated_iff:
  "pairingViolated r = (truthy (rq_privateKey r) \<noteq> truthy (rq_funderAddress r))"
  by (auto simp: pairingViolated_def)

lemma limitHandler_valid:
  "limitValid r \<Longrightarrow>
   limitHandler w st r =
     (respond w ''Failed to create limit order'' (fst (limitService w st r)),
      snd (limitService w st r))"
  by (simp add: limitHandler_def limitValid_def limitService_def pairingViolated_iff
      split: prod.splits)

lemma legacyHandler_valid:
  "limitValid r \<Longrightarrow>
   legacyHandler w st r =
     (respond w ''Failed to create order'' (fst (limitService w st r)),
      snd (limitService w st r))"
  by (simp add: legacyHandler_def limitValid_def limitService_def pairingViolated_iff
      split: prod.splits)

lemma limitHandler_invalid:
  "\<not> limitValid r \<Longrightarrow> res_status (fst (limitHandler w st r)) = 400 \<and> snd (limitHandler w st r) = st"
  by (auto simp: limitHandler_def limitValid_def pairingViolated_iff res_json_400 status_simps)

lemma legacyHandler_invalid:
  "\<not> limitValid r \<Longrightarrow> legacyHandler w st r = limitHandler w st r"
  by (auto simp: limitHandler_def legacyHandler_def limitValid_def pairingViolated_iff)

lemma marketHandler_valid:
  "marketValid w r \<Longrightarrow>
   marketHandler w st r =
     (respond w ''Failed to create market order'' (fst (marketService w st r)),
      snd (marketService w st r))"
  by (auto simp: marketHandler_def marketValid_def marketService_def pairingViolated_iff le_zero_def
      split: prod.splits jsnum.splits)

lemma marketHandler_invalid:
  "\<not> marketValid w r \<Longrightarrow> res_status (fst (marketHandler w st r)) = 400 \<and> snd (marketHandler w st r) = st"
  by (auto simp: marketHandler_def marketValid_def pairingViolated_iff res_json_400 status_simps le_zero_def
       split: jsnum.splits)

lemma acquire_env:
  "acquireClient world0 registry0 None = (Inr envSession, afterEnv)"
  by (simp add: acquireClient_def getInstance_def registry0_def world0_simps envVal_def
      getInstanceWithCredentials_def cacheKey_def newSession_def Let_def envSession_def
      tempEnv_def afterEnv_def)

subsection \<open>The steps of the order service\<close>

lemma str_includes_append: "str_includes (p @ x @ s) x"
proof (induction p)
  case Nil
  show ?case
  proof (cases "x @ s")
    case Nil
    then show ?thesis by simp
  next
    case (Cons a list)
    have "prefix x (x @ s)" by simp
    then show ?thesis using Cons by simp
  qed
next
  case (Cons a p)
  then show ?case by simp
qed

lemma Error_simps:
  "err_message (Error m) = Some m" "err_status (Error m) = None" "err_dataError (Error m) = None"
  "message_text (Error m) = m"
  by (simp_all add: Error_def message_text_def)

lemma message_or_Error: "m \<noteq> [] \<Longrightarrow> message_or (Error m) fb = m"
  by (simp add: message_or_def Error_def)

lemma resolveTickSize_given:
  "truthy t0 \<Longrightarrow> resolveTickSize w st c tok t0 = (Inr t0, st)"
  by (cases t0) (auto simp: resolveTickSize_def)

lemma resolveTickSize_fetched:
  "\<not> truthy t0 \<Longrightarrow> getTickSize w (trace st) c tok = Inr t \<Longrightarrow> truthy t \<Longrightarrow>
   resolveTickSize w st c tok t0 = (Inr t, st\<lparr>trace := trace st @ [NetGetTickSize c tok]\<rparr>)"
  by (cases t) (auto simp: resolveTickSize_def getMarketInfo_def Let_def)

lemma resolveTickSize_empty:
  "\<not> truthy t0 \<Longrightarrow> getTickSize w (trace st) c tok = Inr t \<Longrightarrow> \<not> truthy t \<Longrightarrow>
   resolveTickSize w st c tok t0 =
     (Inl (Error ''tickSize is required but could not be determined from market''),
      st\<lparr>trace := trace st @ [NetGetTickSize c tok]\<rparr>)"
  by (auto simp: resolveTickSize_def getMarketInfo_def Let_def)

lemma resolveTickSize_not_found:
  "\<not> truthy t0 \<Longrightarrow> getTickSize w (trace st) c tok = Inl e \<Longrightarrow> isNotFound e \<Longrightarrow>
   resolveTickSize w st c tok t0 =
     (Inl (Error (''Failed to get market info: '' @ (''Market not found for tokenID: '' @ toStringJS w tok)
              @ ''. Please verify the tokenID is correct and the market exists.. Please provide tickSize manually or use a valid tokenID.'')),
      st\<lparr>trace := trace st @ [NetGetTickSize c tok]\<rparr>)"
  by (auto simp: resolveTickSize_def getMarketInfo_def Let_def Error_simps)

lemma resolveTickSize_other_error:
  "\<not> truthy t0 \<Longrightarrow> getTickSize w (trace st) c tok = Inl e \<Longrightarrow> \<not> isNotFound e \<Longrightarrow>
   resolveTickSize w st c tok t0 =
     (Inl (Error (''Failed to get market info: '' @ message_text e
              @ ''. Please provide tickSize manually or use a valid tokenID.'')),
      st\<lparr>trace := trace st @ [NetGetTickSize c tok]\<rparr>)"
  by (auto simp: resolveTickSize_def getMarketInfo_def Let_def)

lemma submissions_append [simp]:
  "submissions (xs @ ys) = submissions xs + submissions ys"
  by (simp add: submissions_def)

lemma submissions_single [simp]:
  "submissions [NetGetTickSize c t] = 0"
  "submissions [NetCreateOrDeriveApiKey c] = 0"
  "submissions [NetCreateAndPostOrder c a b d] = 1"
  "submissions [NetCreateAndPostMarketOrder c a' b' d] = 1"
  by (simp_all add: submissions_def)

lemma getInstanceWithCredentials_submissions:
  "getInstanceWithCredentials w st pk fa h c s = (r, st1) \<Longrightarrow>
   submissions (trace st1) = submissions (trace st)"
  by (auto simp: getInstanceWithCredentials_def Let_def newSession_def
      split: option.splits if_splits sum.splits)

lemma acquireClient_submissions:
  "acquireClient w st cred = (r, st1) \<Longrightarrow> submissions (trace st1) = submissions (trace st)"
  by (auto simp: acquireClient_def getInstance_def Let_def
      dest: getInstanceWithCredentials_submissions split: option.splits if_splits prod.splits)

lemma resolveTickSize_submissions:
  "resolveTickSize w st c tok t0 = (r, st1) \<Longrightarrow> submissions (trace st1) = submissions (trace st)"
  by (auto simp: resolveTickSize_def getMarketInfo_def Let_def
      split: option.splits if_splits sum.splits prod.splits)

lemma orderTypeError_not_rewritten:
  "ot = ''FOK'' \<or> ot = ''FAK'' \<Longrightarrow>
   rewriteSubmitError w tok (orderTypeError w (JStr ot)) = orderTypeError w (JStr ot)"
  by (auto simp: rewriteSubmitError_def orderTypeError_def Error_simps)

lemma createAndPostOrder_acquire_fails:
  "acquireClient w st cred = (Inl e, st1) \<Longrightarrow>
   createAndPostOrder w st op mp ot cred = (Inl e, st1)"
  by (simp add: createAndPostOrder_def)

lemma createAndPostOrder_tick_fails:
  "acquireClient w st cred = (Inr c, st1) \<Longrightarrow>
   resolveTickSize w st1 c (op_tokenID op) (mp_tickSize mp) = (Inl e, st2) \<Longrightarrow>
   createAndPostOrder w st op mp ot cred = (Inl e, st2)"
  by (simp add: createAndPostOrder_def)

lemma createAndPostOrder_market_type:
  "acquireClient w st cred = (Inr c, st1) \<Longrightarrow>
   resolveTickSize w st1 c (op_tokenID op) (mp_tickSize mp) = (Inr t, st2) \<Longrightarrow>
   ot = ''FOK'' \<or> ot = ''FAK'' \<Longrightarrow>
   createAndPostOrder w st op mp (JStr ot) cred = (Inl (orderTypeError w (JStr ot)), st2)"
  by (auto simp: createAndPostOrder_def orderTypeError_not_rewritten)

lemma createAndPostOrder_submits:
  "acquireClient w st cred = (Inr c, st1) \<Longrightarrow>
   resolveTickSize w st1 c (op_tokenID op) (mp_tickSize mp) = (Inr t, st2) \<Longrightarrow>
   ot \<noteq> JStr ''FOK'' \<Longrightarrow> ot \<noteq> JStr ''FAK'' \<Longrightarrow>
   order = \<lparr>uo_tokenID = op_tokenID op, uo_price = op_price op,
            uo_side = (if op_side op = JStr ''BUY'' then BUY else SELL), uo_size = op_size op\<rparr> \<Longrightarrow>
   options = \<lparr>oo_tickSize = t, oo_negRisk = js_coalesce (mp_negRisk mp) (JBool False)\<rparr> \<Longrightarrow>
   ote = (if ot = JStr ''GTD'' then GTD else GTC) \<Longrightarrow>
   createAndPostOrder w st op mp ot cred =
     (case createAndPostOrder_upstream w (trace st2) c order options ote of
        Inr d \<Rightarrow> Inr d | Inl e \<Rightarrow> Inl (rewriteSubmitError w (op_tokenID op) e),
      st2\<lparr>trace := trace st2 @ [NetCreateAndPostOrder c order options ote]\<rparr>)"
  by (auto simp: createAndPostOrder_def Let_def split: sum.splits)

lemma createAndPostOrder_market_type_fails:
  assumes "ot = ''FOK'' \<or> ot = ''FAK''"
  shows "\<exists>e st1. createAndPostOrder w st op mp (JStr ot) cred = (Inl e, st1)
           \<and> submissions (trace st1) = submissions (trace st)"
proof (cases "acquireClient w st cred")
  case (Pair r st1)
  note acq = this
  show ?thesis
  proof (cases r)
    case (Inl e)
    then show ?thesis
      using createAndPostOrder_acquire_fails [of w st cred e st1 op mp "JStr ot"] acq
        acquireClient_submissions [OF acq] by auto
  next
    case (Inr c)
    obtain r2 st2 where ts: "resolveTickSize w st1 c (op_tokenID op) (mp_tickSize mp) = (r2, st2)"
      by (cases "resolveTickSize w st1 c (op_tokenID op) (mp_tickSize mp)")
    have s: "submissions (trace st2) = submissions (trace st)"
      using acquireClient_submissions [OF acq] resolveTickSize_submissions [OF ts] by simp
    show ?thesis
    proof (cases r2)
      case (Inl e)
      then show ?thesis
        using createAndPostOrder_tick_fails [of w st cred c st1 op mp e st2 "JStr ot"] acq Inr ts s
        by auto
    next
      case (Inr t)
      then show ?thesis
        using createAndPostOrder_market_type [of w st cred c st1 op mp t st2 ot] acq \<open>r = Inr c\<close> ts s assms
        by auto
    qed
  qed
qed

subsection \<open>Validation failures and the side of an order\<close>

lemma request_simps:
  "limitValid okRequest" "limitValid fokRequest" "limitValid holdRequest" "limitValid xyzRequest"
  "\<not> limitValid noSideRequest" "\<not> limitValid keyOnlyRequest" "limitValid pairRequest"
  "marketValid w okMarketRequest"
  "credentialsOf okRequest = None" "credentialsOf fokRequest = None"
  "credentialsOf holdRequest = None" "credentialsOf xyzRequest = None"
  "credentialsOf okMarketRequest = None"
  "credentialsOf pairRequest = Some pairA"
  by (simp_all add: limitValid_def marketValid_def credentialsOf_def okRequest_def fokRequest_def
      holdRequest_def xyzRequest_def noSideRequest_def keyOnlyRequest_def pairRequest_def
      okMarketRequest_def emptyBody_def pairA_def)

lemma env_tick:
  "resolveTickSize world0 afterEnv envSession (JStr ''0xabc'') JUndefined = (Inr (JStr ''0.01''), afterTick)"
  by (simp add: resolveTickSize_fetched world0_simps afterTick_def)

text \<open>
  C3. Every response of the order endpoints, the validation failures with status 400
  included, is the envelope with a \<open>success\<close> field and a \<open>timestamp\<close> field. The code
  does not do this for validation failures: the empty body is answered by each of the
  three endpoints with status 400 and the single field \<open>error\<close>.
\<close>

theorem validation_failure_body:
  "limitHandler world0 registry0 emptyBody = (badRequest ''tokenID is required'', registry0) \<and>
   legacyHandler world0 registry0 emptyBody = (badRequest ''tokenID is required'', registry0) \<and>
   marketHandler world0 registry0 emptyBody = (badRequest ''tokenID is required'', registry0) \<and>
   \<not> has_field (badRequest ''tokenID is required'') ''success'' \<and>
   \<not> has_field (badRequest ''tokenID is required'') ''timestamp''"
  by (simp add: limitHandler_def legacyHandler_def marketHandler_def emptyBody_def res_json_400
      has_field_def badRequest_def)

theorem validation_failure_body_witness:
  "res_status (fst (limitHandler world0 registry0 emptyBody)) = 400 \<and>
   map fst (res_body (fst (limitHandler world0 registry0 emptyBody))) = [''error''] \<and>
   res_status (fst (legacyHandler world0 registry0 emptyBody)) = 400 \<and>
   map fst (res_body (fst (legacyHandler world0 registry0 emptyBody))) = [''error''] \<and>
   res_status (fst (marketHandler world0 registry0 emptyBody)) = 400 \<and>
   map fst (res_body (fst (marketHandler world0 registry0 emptyBody))) = [''error'']"
  using validation_failure_body by (simp add: badRequest_def)

text \<open>
  C6 (amended). The limit handler answers 400 exactly when the token is missing, the
  price or the size is \<^verbatim>\<open>null\<close> or \<^verbatim>\<open>undefined\<close>, the side is falsy, or exactly one of the
  two credentials is given. The side is checked for presence only: a missing side is
  answered 400 "side is required (BUY or SELL)" with the registry untouched, and a
  request that passes the checks, whatever its side, is handed to the order service.
\<close>

theorem limit_side_presence_only:
  "(res_status (fst (limitHandler w st r)) = 400) =
     (\<not> truthy (rq_tokenID r) \<or> rq_price r = JUndefined \<or> rq_price r = JNull \<or>
      \<not> truthy (rq_side r) \<or> rq_size r = JUndefined \<or> rq_size r = JNull \<or>
      pairingViolated r)
   \<and> (truthy (rq_tokenID r) \<and> rq_price r \<noteq> JUndefined \<and> rq_price r \<noteq> JNull \<and> \<not> truthy (rq_side r)
        \<longrightarrow> limitHandler w st r = (badRequest ''side is required (BUY or SELL)'', st))
   \<and> (limitValid r \<longrightarrow>
        limitHandler w st r =
          (respond w ''Failed to create limit order'' (fst (limitService w st r)),
           snd (limitService w st r)))"
proof (intro conjI impI)
  show "(res_status (fst (limitHandler w st r)) = 400) =
     (\<not> truthy (rq_tokenID r) \<or> rq_price r = JUndefined \<or> rq_price r = JNull \<or>
      \<not> truthy (rq_side r) \<or> rq_size r = JUndefined \<or> rq_size r = JNull \<or>
      pairingViolated r)"
  proof (cases "limitValid r")
    case True
    then show ?thesis
      by (auto simp: limitHandler_valid status_simps limitValid_def pairingViolated_iff)
  next
    case False
    then show ?thesis
      using limitHandler_invalid [OF False, of w st]
      by (auto simp: limitValid_def pairingViolated_iff)
  qed
next
  assume "truthy (rq_tokenID r) \<and> rq_price r \<noteq> JUndefined \<and> rq_price r \<noteq> JNull \<and> \<not> truthy (rq_side r)"
  then show "limitHandler w st r = (badRequest ''side is required (BUY or SELL)'', st)"
    by (simp add: limitHandler_def res_json_400)
next
  assume "limitValid r"
  then show "limitHandler w st r =
          (respond w ''Failed to create limit order'' (fst (limitService w st r)),
           snd (limitService w st r))"
    by (rule limitHandler_valid)
qed

lemma js_coalesce_idem [simp]:
  "js_coalesce (js_coalesce a b) b = js_coalesce a b"
  by (simp add: js_coalesce_def nullish_def)

lemma limitService_submits:
  assumes "acquireClient w st (credentialsOf r) = (Inr c, st1)"
    and "resolveTickSize w st1 c (rq_tokenID r) (rq_tickSize r) = (Inr t, st2)"
    and "js_or (rq_orderType r) (JStr ''GTC'') \<noteq> JStr ''FOK''"
    and "js_or (rq_orderType r) (JStr ''GTC'') \<noteq> JStr ''FAK''"
  shows "limitService w st r =
     (case createAndPostOrder_upstream w (trace st2) c (limitOrder r) (limitOptions r t)
             (if js_or (rq_orderType r) (JStr ''GTC'') = JStr ''GTD'' then GTD else GTC) of
        Inr d \<Rightarrow> Inr d | Inl e \<Rightarrow> Inl (rewriteSubmitError w (rq_tokenID r) e),
      st2\<lparr>trace := trace st2 @ [NetCreateAndPostOrder c (limitOrder r) (limitOptions r t)
             (if js_or (rq_orderType r) (JStr ''GTC'') = JStr ''GTD'' then GTD else GTC)]\<rparr>)"
  using assms
  by (auto simp: limitService_def createAndPostOrder_def Let_def limitOrder_def limitOptions_def
      split: sum.splits)

lemma field_simps0:
  "rq_tokenID okRequest = JStr ''0xabc''" "rq_tickSize okRequest = JUndefined"
  "rq_orderType okRequest = JUndefined"
  "rq_tokenID holdRequest = JStr ''0xabc''" "rq_tickSize holdRequest = JUndefined"
  "rq_orderType holdRequest = JUndefined" "rq_side holdRequest = JStr ''HOLD''"
  "rq_tokenID fokRequest = JStr ''0xabc''" "rq_tickSize fokRequest = JUndefined"
  "rq_orderType fokRequest = JStr ''FOK''"
  "rq_tokenID xyzRequest = JStr ''0xabc''" "rq_tickSize xyzRequest = JUndefined"
  "rq_orderType xyzRequest = JStr ''XYZ''"
  "rq_tokenID okMarketRequest = JStr ''0xabc''" "rq_tickSize okMarketRequest = JUndefined"
  "rq_orderType okMarketRequest = JStr ''FOK''"
  by (simp_all add: okRequest_def holdRequest_def fokRequest_def xyzRequest_def okMarketRequest_def
      emptyBody_def)

lemma hold_service:
  "limitService world0 registry0 holdRequest =
     (Inr (JObject ''{orderID: 1}''),
      afterTick\<lparr>trace := trace afterTick @
        [NetCreateAndPostOrder envSession (limitOrder holdRequest)
           (limitOptions holdRequest (JStr ''0.01'')) GTC]\<rparr>)"
  by (subst limitService_submits [where c = envSession and ?st1.0 = afterEnv
          and t = "JStr ''0.01''" and ?st2.0 = afterTick])
     (simp_all add: request_simps acquire_env world0_simps field_simps0 env_tick js_or_def)

text \<open>
  The claim as stated fails: the side "HOLD" is neither BUY nor SELL, yet the request is
  answered 200 and an order is submitted for it (as a SELL order).
\<close>

theorem unknown_side_accepted:
  "rq_side holdRequest = JStr ''HOLD'' \<and>
   limitHandler world0 registry0 holdRequest =
     (success world0 (JObject ''{orderID: 1}''),
      afterTick\<lparr>trace := trace afterTick @
        [NetCreateAndPostOrder envSession (limitOrder holdRequest)
           (limitOptions holdRequest (JStr ''0.01'')) GTC]\<rparr>) \<and>
   res_status (success world0 (JObject ''{orderID: 1}'')) = 200 \<and>
   uo_side (limitOrder holdRequest) = SELL"
  by (simp add: limitHandler_valid request_simps hold_service respond_simps status_simps
      limitOrder_def field_simps0)

theorem limit_side_presence_only_witness:
  "res_status (fst (limitHandler world0 registry0 noSideRequest)) = 400 \<and>
   limitHandler world0 registry0 noSideRequest = (badRequest ''side is required (BUY or SELL)'', registry0) \<and>
   limitValid holdRequest \<and>
   limitHandler world0 registry0 holdRequest =
     (respond world0 ''Failed to create limit order'' (fst (limitService world0 registry0 holdRequest)),
      snd (limitService world0 registry0 holdRequest))"
  using limit_side_presence_only [of world0 registry0 noSideRequest]
    limit_side_presence_only [of world0 registry0 holdRequest]
  by (simp add: request_simps) (simp add: noSideRequest_def okRequest_def emptyBody_def)

subsection \<open>Market order types on the limit endpoints\<close>

lemma limitService_market_type:
  assumes "rq_orderType r = JStr ot" and "ot = ''FOK'' \<or> ot = ''FAK''"
  shows "\<exists>e st1. limitService w st r = (Inl e, st1)
           \<and> submissions (trace st1) = submissions (trace st)"
proof -
  have "js_or (rq_orderType r) (JStr ''GTC'') = JStr ot"
    using assms by (auto simp: js_or_def)
  then show ?thesis
    unfolding limitService_def using createAndPostOrder_market_type_fails [OF assms(2)] by simp
qed

lemma limitService_market_type_message:
  assumes "rq_orderType r = JStr ot" and "ot = ''FOK'' \<or> ot = ''FAK''"
    and "acquireClient w st (credentialsOf r) = (Inr c, st1)"
    and "resolveTickSize w st1 c (rq_tokenID r) (rq_tickSize r) = (Inr t, st2)"
  shows "limitService w st r = (Inl (orderTypeError w (JStr ot)), st2)"
proof -
  have "js_or (rq_orderType r) (JStr ''GTC'') = JStr ot"
    using assms by (auto simp: js_or_def)
  then show ?thesis
    unfolding limitService_def
    using createAndPostOrder_market_type [where ot = ot and op = "\<lparr>op_tokenID = rq_tokenID r, op_price = rq_price r, op_side = rq_side r,
        op_size = rq_size r, op_expiration = rq_expiration r\<rparr>" and mp = "\<lparr>mp_tickSize = rq_tickSize r, mp_negRisk = js_coalesce (rq_negRisk r) (JBool False)\<rparr>", OF assms(3) _ assms(2)] assms(4)
    by simp
qed

lemma orderTypeError_message:
  "message_or (orderTypeError w (JStr ot)) fb =
     ''Order type '' @ ot @ '' requires createAndPostMarketOrder which needs a different order structure. Please use GTC or GTD for limit orders.''"
  by (simp add: orderTypeError_def message_or_Error)

text \<open>
  C2 (amended). A limit-order request (to /api/orders/limit or /api/orders) that passes
  the field checks and asks for the order type FOK or FAK is always answered with status
  500, and no order is submitted for it. The rejection is raised by the order service
  after the session has been acquired and the tick size resolved: when both succeed, the
  response is the failure envelope whose message says that the order type requires
  createAndPostMarketOrder, and the registry is as those two steps left it.
\<close>

theorem limit_market_type_rejected:
  assumes "limitValid r" and "rq_orderType r = JStr ot" and "ot = ''FOK'' \<or> ot = ''FAK''"
  shows "res_status (fst (limitHandler w st r)) = 500 \<and>
         res_status (fst (legacyHandler w st r)) = 500 \<and>
         submissions (trace (snd (limitHandler w st r))) = submissions (trace st) \<and>
         submissions (trace (snd (legacyHandler w st r))) = submissions (trace st) \<and>
         (\<forall>c st1 t st2.
            acquireClient w st (credentialsOf r) = (Inr c, st1) \<longrightarrow>
            resolveTickSize w st1 c (rq_tokenID r) (rq_tickSize r) = (Inr t, st2) \<longrightarrow>
            limitHandler w st r =
              (failure w (''Order type '' @ ot @ '' requires createAndPostMarketOrder which needs a different order structure. Please use GTC or GTD for limit orders.''), st2) \<and>
            legacyHandler w st r =
              (failure w (''Order type '' @ ot @ '' requires createAndPostMarketOrder which needs a different order structure. Please use GTC or GTD for limit orders.''), st2))"
proof -
  obtain e st1 where s: "limitService w st r = (Inl e, st1)"
    and n: "submissions (trace st1) = submissions (trace st)"
    using limitService_market_type [OF assms(2,3)] by blast
  have a: "res_status (fst (limitHandler w st r)) = 500 \<and>
         res_status (fst (legacyHandler w st r)) = 500 \<and>
         submissions (trace (snd (limitHandler w st r))) = submissions (trace st) \<and>
         submissions (trace (snd (legacyHandler w st r))) = submissions (trace st)"
    using s n by (simp add: limitHandler_valid legacyHandler_valid assms(1) respond_simps status_simps)
  have b: "limitHandler w st r =
              (failure w (''Order type '' @ ot @ '' requires createAndPostMarketOrder which needs a different order structure. Please use GTC or GTD for limit orders.''), st2) \<and>
            legacyHandler w st r =
              (failure w (''Order type '' @ ot @ '' requires createAndPostMarketOrder which needs a different order structure. Please use GTC or GTD for limit orders.''), st2)"
    if "acquireClient w st (credentialsOf r) = (Inr c, st1)"
      and "resolveTickSize w st1 c (rq_tokenID r) (rq_tickSize r) = (Inr t, st2)"
    for c st1 t st2
    using limitService_market_type_message [OF assms(2,3) that]
    by (simp add: limitHandler_valid legacyHandler_valid assms(1) respond_simps
        orderTypeError_message)
  show ?thesis using a b by blast
qed

text \<open>
  The claim as stated fails: the response has status 500, not 400, and two calls to the
  venue (credential derivation and the tick size lookup) precede the rejection.
\<close>

theorem limit_market_type_status:
  "rq_orderType fokRequest = JStr ''FOK'' \<and>
   res_status (fst (limitHandler world0 registry0 fokRequest)) = 500 \<and>
   trace registry0 = [] \<and>
   trace (snd (limitHandler world0 registry0 fokRequest)) =
     [NetCreateOrDeriveApiKey tempEnv, NetGetTickSize envSession (JStr ''0xabc'')]"
proof -
  have "limitService world0 registry0 fokRequest = (Inl (orderTypeError world0 (JStr ''FOK'')), afterTick)"
    by (rule limitService_market_type_message [where c = envSession and ?st1.0 = afterEnv and t = "JStr ''0.01''"])
      (simp_all add: field_simps0 request_simps acquire_env env_tick)
  then show ?thesis
    by (simp add: limitHandler_valid request_simps respond_simps status_simps field_simps0
        afterTick_def afterEnv_def registry0_def)
qed

theorem limit_market_type_rejected_witness:
  "limitValid fokRequest \<and> rq_orderType fokRequest = JStr ''FOK'' \<and>
   acquireClient world0 registry0 (credentialsOf fokRequest) = (Inr envSession, afterEnv) \<and>
   resolveTickSize world0 afterEnv envSession (rq_tokenID fokRequest) (rq_tickSize fokRequest)
     = (Inr (JStr ''0.01''), afterTick) \<and>
   limitHandler world0 registry0 fokRequest =
     (failure world0 ''Order type FOK requires createAndPostMarketOrder which needs a different order structure. Please use GTC or GTD for limit orders.'', afterTick) \<and>
   legacyHandler world0 registry0 fokRequest =
     (failure world0 ''Order type FOK requires createAndPostMarketOrder which needs a different order structure. Please use GTC or GTD for limit orders.'', afterTick) \<and>
   submissions (trace afterTick) = 0"
proof -
  have v: "limitValid fokRequest" and o: "rq_orderType fokRequest = JStr ''FOK''"
    by (simp_all add: request_simps field_simps0)
  have a: "acquireClient world0 registry0 (credentialsOf fokRequest) = (Inr envSession, afterEnv)"
    by (simp add: request_simps acquire_env)
  have t: "resolveTickSize world0 afterEnv envSession (rq_tokenID fokRequest) (rq_tickSize fokRequest)
     = (Inr (JStr ''0.01''), afterTick)"
    by (simp add: field_simps0 env_tick)
  have n: "submissions (trace afterTick) = 0"
    by (simp add: afterTick_def afterEnv_def submissions_def)
  show ?thesis
    using limit_market_type_rejected [OF v o, of world0 registry0] v o a t n by simp
qed

subsection \<open>Unknown order types, and the legacy endpoint\<close>

lemma createAndPostOrder_unknown_type:
  assumes "ot \<noteq> ''GTD''" "ot \<noteq> ''FOK''" "ot \<noteq> ''FAK''"
  shows "createAndPostOrder w st op mp (JStr ot) cred
           = createAndPostOrder w st op mp (JStr ''GTC'') cred"
  using assms
  by (simp add: createAndPostOrder_def Let_def split: prod.splits sum.splits)

lemma toStringJS_upd [simp]:
  "toStringJS (w\<lparr>createAndPostOrder_upstream := f\<rparr>) v = toStringJS w v"
  "toStringJS (w\<lparr>getTickSize := g\<rparr>) v = toStringJS w v"
  by (cases v; simp)+

lemma getInstanceWithCredentials_upd [simp]:
  "getInstanceWithCredentials (w\<lparr>createAndPostOrder_upstream := f\<rparr>) st pk fa h c s
     = getInstanceWithCredentials w st pk fa h c s"
  "getInstanceWithCredentials (w\<lparr>getTickSize := g\<rparr>) st pk fa h c s
     = getInstanceWithCredentials w st pk fa h c s"
  by (simp_all add: getInstanceWithCredentials_def cacheKey_def Let_def
      cong: option.case_cong sum.case_cong)

lemma acquireClient_upd [simp]:
  "acquireClient (w\<lparr>createAndPostOrder_upstream := f\<rparr>) st cred = acquireClient w st cred"
  "acquireClient (w\<lparr>getTickSize := g\<rparr>) st cred = acquireClient w st cred"
  by (simp_all add: acquireClient_def getInstance_def defaultHost_def defaultChainId_def
      defaultSignatureType_def Let_def cong: option.case_cong)

text \<open>
  C10. A limit-order request whose order type is a string other than GTD, FOK and FAK is
  not rejected on that account: the order service, and so the handler, behaves exactly as
  for the order type GTC, and once the session is acquired and the tick size resolved
  the order is submitted to the venue with the order type GTC.
\<close>

theorem unknown_order_type_is_GTC:
  assumes "rq_orderType r = JStr ot" and "ot \<notin> {''GTD'', ''FOK'', ''FAK''}"
  shows "createAndPostOrder w st op mp (JStr ot) cred
           = createAndPostOrder w st op mp (JStr ''GTC'') cred \<and>
         limitHandler w st r = limitHandler w st (r\<lparr>rq_orderType := JStr ''GTC''\<rparr>) \<and>
         (\<forall>c st1 t st2.
            limitValid r \<longrightarrow>
            acquireClient w st (credentialsOf r) = (Inr c, st1) \<longrightarrow>
            resolveTickSize w st1 c (rq_tokenID r) (rq_tickSize r) = (Inr t, st2) \<longrightarrow>
            limitHandler w st r =
              (respond w ''Failed to create limit order''
                 (case createAndPostOrder_upstream w (trace st2) c (limitOrder r)
                         (limitOptions r t) GTC of
                    Inr d \<Rightarrow> Inr d
                  | Inl e \<Rightarrow> Inl (rewriteSubmitError w (rq_tokenID r) e)),
               st2\<lparr>trace := trace st2
                      @ [NetCreateAndPostOrder c (limitOrder r) (limitOptions r t) GTC]\<rparr>))"
proof -
  have ne: "ot \<noteq> ''GTD''" "ot \<noteq> ''FOK''" "ot \<noteq> ''FAK''"
    using assms(2) by auto
  have j: "js_or (rq_orderType r) (JStr ''GTC'') = JStr ot \<or>
           js_or (rq_orderType r) (JStr ''GTC'') = JStr ''GTC''"
    using assms(1) by (simp add: js_or_def)
  have j': "js_or (rq_orderType r) (JStr ''GTC'') \<noteq> JStr ''FOK''"
    "js_or (rq_orderType r) (JStr ''GTC'') \<noteq> JStr ''FAK''"
    "js_or (rq_orderType r) (JStr ''GTC'') \<noteq> JStr ''GTD''"
    using j ne by auto
  have s: "limitService w st r = limitService w st (r\<lparr>rq_orderType := JStr ''GTC''\<rparr>)"
    using j createAndPostOrder_unknown_type [OF ne]
    by (auto simp: limitService_def credentialsOf_def js_or_def)
  have h: "limitHandler w st r = limitHandler w st (r\<lparr>rq_orderType := JStr ''GTC''\<rparr>)"
  proof (cases "limitValid r")
    case True
    then have "limitValid (r\<lparr>rq_orderType := JStr ''GTC''\<rparr>)"
      by (simp add: limitValid_def)
    then show ?thesis using True s by (simp add: limitHandler_valid)
  next
    case False
    then show ?thesis
      by (auto simp: limitHandler_def limitValid_def pairingViolated_iff)
  qed
  have g: "limitHandler w st r =
              (respond w ''Failed to create limit order''
                 (case createAndPostOrder_upstream w (trace st2) c (limitOrder r)
                         (limitOptions r t) GTC of
                    Inr d \<Rightarrow> Inr d
                  | Inl e \<Rightarrow> Inl (rewriteSubmitError w (rq_tokenID r) e)),
               st2\<lparr>trace := trace st2
                      @ [NetCreateAndPostOrder c (limitOrder r) (limitOptions r t) GTC]\<rparr>)"
    if "limitValid r" "acquireClient w st (credentialsOf r) = (Inr c, st1)"
      "resolveTickSize w st1 c (rq_tokenID r) (rq_tickSize r) = (Inr t, st2)"
    for c st1 t st2
    using limitService_submits [OF that(2,3) j'(1,2)] j'(3)
    by (simp add: limitHandler_valid that(1))
  show ?thesis
    using createAndPostOrder_unknown_type [OF ne] h g by blast
qed

theorem unknown_order_type_is_GTC_witness:
  "rq_orderType xyzRequest = JStr ''XYZ'' \<and>
   limitHandler world0 registry0 xyzRequest =
     (success world0 (JObject ''{orderID: 1}''),
      afterTick\<lparr>trace := trace afterTick
         @ [NetCreateAndPostOrder envSession (limitOrder xyzRequest)
              (limitOptions xyzRequest (JStr ''0.01'')) GTC]\<rparr>) \<and>
   limitHandler world0 registry0 (xyzRequest\<lparr>rq_orderType := JStr ''GTC''\<rparr>) =
     limitHandler world0 registry0 xyzRequest"
proof -
  have o: "rq_orderType xyzRequest = JStr ''XYZ''" by (simp add: field_simps0)
  have n: "''XYZ'' \<notin> {''GTD'', ''FOK'', ''FAK''}" by simp
  have a: "acquireClient world0 registry0 (credentialsOf xyzRequest) = (Inr envSession, afterEnv)"
    by (simp add: request_simps acquire_env)
  have t: "resolveTickSize world0 afterEnv envSession (rq_tokenID xyzRequest) (rq_tickSize xyzRequest)
     = (Inr (JStr ''0.01''), afterTick)"
    by (simp add: field_simps0 env_tick)
  have v: "limitValid xyzRequest" by (simp add: request_simps)
  note th = unknown_order_type_is_GTC [OF o n, of world0 registry0]
  have 1: "limitHandler world0 registry0 (xyzRequest\<lparr>rq_orderType := JStr ''GTC''\<rparr>) =
     limitHandler world0 registry0 xyzRequest"
    using th by simp
  have 2: "limitHandler world0 registry0 xyzRequest =
     (success world0 (JObject ''{orderID: 1}''),
      afterTick\<lparr>trace := trace afterTick
         @ [NetCreateAndPostOrder envSession (limitOrder xyzRequest)
              (limitOptions xyzRequest (JStr ''0.01'')) GTC]\<rparr>)"
  proof -
    have "limitHandler world0 registry0 xyzRequest =
       (respond world0 ''Failed to create limit order''
          (case createAndPostOrder_upstream world0 (trace afterTick) envSession
                  (limitOrder xyzRequest) (limitOptions xyzRequest (JStr ''0.01'')) GTC of
             Inr d \<Rightarrow> Inr d
           | Inl e \<Rightarrow> Inl (rewriteSubmitError world0 (rq_tokenID xyzRequest) e)),
        afterTick\<lparr>trace := trace afterTick
           @ [NetCreateAndPostOrder envSession (limitOrder xyzRequest)
                (limitOptions xyzRequest (JStr ''0.01'')) GTC]\<rparr>)"
      using th v a t by blast
    then show ?thesis by (simp add: world0_simps respond_simps)
  qed
  show ?thesis using o 1 2 by blast
qed

text \<open>
  C9 (amended). The legacy endpoint validates as the limit endpoint does, leaves the
  registry (the log of venue calls included) in the same state and answers with the same
  status. The two responses are equal whenever validation fails, the order service
  returns, or it fails with a non-empty message; they can differ only in the fallback
  text used for an error without message, and for such an error they are the two failure
  envelopes with the two fallback texts.
\<close>

theorem legacy_alias_up_to_fallback:
  "snd (legacyHandler w st r) = snd (limitHandler w st r) \<and>
   res_status (fst (legacyHandler w st r)) = res_status (fst (limitHandler w st r)) \<and>
   (fst (legacyHandler w st r) = fst (limitHandler w st r) \<or>
    fst (limitHandler w st r) = failure w ''Failed to create limit order'' \<and>
    fst (legacyHandler w st r) = failure w ''Failed to create order'') \<and>
   (\<not> limitValid r \<longrightarrow> legacyHandler w st r = limitHandler w st r) \<and>
   (\<forall>d. fst (limitService w st r) = Inr d \<longrightarrow> legacyHandler w st r = limitHandler w st r) \<and>
   (\<forall>e m. fst (limitService w st r) = Inl e \<longrightarrow> err_message e = Some m \<longrightarrow> m \<noteq> [] \<longrightarrow>
      legacyHandler w st r = limitHandler w st r) \<and>
   (\<forall>e. limitValid r \<longrightarrow> fst (limitService w st r) = Inl e \<longrightarrow>
      err_message e = None \<or> err_message e = Some [] \<longrightarrow>
      fst (limitHandler w st r) = failure w ''Failed to create limit order'' \<and>
      fst (legacyHandler w st r) = failure w ''Failed to create order'')"
proof (cases "limitValid r")
  case False
  then show ?thesis by (simp add: legacyHandler_invalid)
next
  case True
  show ?thesis
  proof (cases "fst (limitService w st r)")
    case (Inr d)
    then show ?thesis
      by (simp add: limitHandler_valid legacyHandler_valid True respond_simps status_simps)
  next
    case (Inl e)
    then show ?thesis
      by (auto simp: limitHandler_valid legacyHandler_valid True respond_simps message_or_def
          status_simps split: option.splits)
  qed
qed

lemma silent_service:
  "limitService worldSilent registry0 okRequest =
     (Inl (Error []),
      afterTick\<lparr>trace := trace afterTick
         @ [NetCreateAndPostOrder envSession (limitOrder okRequest)
              (limitOptions okRequest (JStr ''0.01'')) GTC]\<rparr>)"
proof -
  have a: "acquireClient worldSilent registry0 (credentialsOf okRequest) = (Inr envSession, afterEnv)"
    by (simp add: request_simps worldSilent_def acquire_env)
  have t: "resolveTickSize worldSilent afterEnv envSession (rq_tokenID okRequest) (rq_tickSize okRequest)
     = (Inr (JStr ''0.01''), afterTick)"
    by (simp add: resolveTickSize_fetched field_simps0 worldSilent_def world0_simps afterTick_def)
  show ?thesis
    by (subst limitService_submits [OF a t])
      (simp_all add: field_simps0 js_or_def worldSilent_def rewriteSubmitError_def Error_simps)
qed

text \<open>
  The claim as stated fails: when the venue's order submission throws an error with an
  empty message, the two endpoints answer the same request with different bodies.
\<close>

theorem legacy_fallback_differs:
  "fst (limitHandler worldSilent registry0 okRequest)
     = failure worldSilent ''Failed to create limit order'' \<and>
   fst (legacyHandler worldSilent registry0 okRequest)
     = failure worldSilent ''Failed to create order'' \<and>
   limitHandler worldSilent registry0 okRequest \<noteq> legacyHandler worldSilent registry0 okRequest"
  by (simp add: limitHandler_valid legacyHandler_valid request_simps silent_service respond_simps
      message_or_def Error_simps failure_def)

theorem legacy_alias_up_to_fallback_witness:
  "\<not> limitValid noSideRequest \<and>
   legacyHandler world0 registry0 noSideRequest = limitHandler world0 registry0 noSideRequest \<and>
   fst (limitService world0 registry0 holdRequest) = Inr (JObject ''{orderID: 1}'') \<and>
   legacyHandler world0 registry0 holdRequest = limitHandler world0 registry0 holdRequest \<and>
   snd (legacyHandler worldSilent registry0 okRequest) = snd (limitHandler worldSilent registry0 okRequest)"
  using legacy_alias_up_to_fallback [of world0 registry0 noSideRequest]
    legacy_alias_up_to_fallback [of world0 registry0 holdRequest]
    legacy_alias_up_to_fallback [of worldSilent registry0 okRequest]
  by (simp add: request_simps hold_service)

subsection \<open>Credentials of a request\<close>

lemma getInstance_env:
  "instance_field st = None \<Longrightarrow> truthy (envVal (PRIVATE_KEY w)) \<Longrightarrow>
   truthy (envVal (FUNDER_ADDRESS w)) \<Longrightarrow>
   getInstance w st =
     getInstanceWithCredentials w st (envVal (PRIVATE_KEY w)) (envVal (FUNDER_ADDRESS w))
       (defaultHost w) (defaultChainId w) (defaultSignatureType w)"
  by (simp add: getInstance_def)

lemma pairingMessage_says:
  "str_includes pairingMessage ''must be provided together''"
proof -
  have "pairingMessage = ''Both privateKey and funderAddress '' @ ''must be provided together''
          @ '', or neither (to use environment variables)''"
    by (simp add: pairingMessage_def)
  then show ?thesis by (metis str_includes_append)
qed

text \<open>
  The credential decision on its own: which credentials the call gets, which acquisition
  they lead to, and the answer to a request that gives exactly one of the two.
\<close>

lemma credential_decision:
  "(truthy (rq_privateKey r) \<and> truthy (rq_funderAddress r) \<longrightarrow>
      \<not> pairingViolated r \<and>
      credentialsOf r = Some (rq_privateKey r, rq_funderAddress r) \<and>
      acquireClient w st (credentialsOf r) =
        getInstanceWithCredentials w st (rq_privateKey r) (rq_funderAddress r)
          (defaultHost w) (defaultChainId w) (defaultSignatureType w))
   \<and> (\<not> truthy (rq_privateKey r) \<and> \<not> truthy (rq_funderAddress r) \<longrightarrow>
      \<not> pairingViolated r \<and> credentialsOf r = None \<and>
      acquireClient w st (credentialsOf r) = getInstance w st)
   \<and> (instance_field st = None \<and> truthy (envVal (PRIVATE_KEY w)) \<and>
       truthy (envVal (FUNDER_ADDRESS w)) \<longrightarrow>
      getInstance w st =
        getInstanceWithCredentials w st (envVal (PRIVATE_KEY w)) (envVal (FUNDER_ADDRESS w))
          (defaultHost w) (defaultChainId w) (defaultSignatureType w))
   \<and> (truthy (rq_privateKey r) \<noteq> truthy (rq_funderAddress r) \<longrightarrow>
      pairingViolated r \<and>
      (truthy (rq_tokenID r) \<and> rq_price r \<noteq> JUndefined \<and> rq_price r \<noteq> JNull \<and>
       truthy (rq_side r) \<and> rq_size r \<noteq> JUndefined \<and> rq_size r \<noteq> JNull \<longrightarrow>
         limitHandler w st r = (badRequest pairingMessage, st) \<and>
         legacyHandler w st r = (badRequest pairingMessage, st)) \<and>
      (truthy (rq_tokenID r) \<and> rq_amount r \<noteq> JUndefined \<and> rq_amount r \<noteq> JNull \<and>
       \<not> le_zero w (rq_amount r) \<and> truthy (rq_side r) \<and>
       (rq_orderType r = JStr ''FOK'' \<or> rq_orderType r = JStr ''FAK'') \<longrightarrow>
         marketHandler w st r = (badRequest pairingMessage, st)))
   \<and> str_includes pairingMessage ''must be provided together''"
proof (intro conjI impI)
  assume "truthy (rq_privateKey r) \<noteq> truthy (rq_funderAddress r)"
  then show p: "pairingViolated r" by (simp add: pairingViolated_iff)
  {
    assume "truthy (rq_tokenID r) \<and> rq_price r \<noteq> JUndefined \<and> rq_price r \<noteq> JNull \<and>
       truthy (rq_side r) \<and> rq_size r \<noteq> JUndefined \<and> rq_size r \<noteq> JNull"
    then show "limitHandler w st r = (badRequest pairingMessage, st)"
      and "legacyHandler w st r = (badRequest pairingMessage, st)"
      using p by (simp_all add: limitHandler_def legacyHandler_def res_json_400)
  }
  {
    assume "truthy (rq_tokenID r) \<and> rq_amount r \<noteq> JUndefined \<and> rq_amount r \<noteq> JNull \<and>
       \<not> le_zero w (rq_amount r) \<and> truthy (rq_side r) \<and>
       (rq_orderType r = JStr ''FOK'' \<or> rq_orderType r = JStr ''FAK'')"
    then show "marketHandler w st r = (badRequest pairingMessage, st)"
      using p by (auto simp: marketHandler_def res_json_400)
  }
qed (auto simp: pairingViolated_def credentialsOf_def acquireClient_def getInstance_env
      pairingMessage_says)

subsection \<open>Market orders\<close>

lemma marketService_acquire_fails:
  "acquireClient w st (credentialsOf r) = (Inl e, st1) \<Longrightarrow>
   marketService w st r = (Inl e, st1)"
  by (simp add: marketService_def createAndPostMarketOrder_def)

lemma marketService_given_tick:
  assumes "rq_orderType r = JStr ''FOK'' \<or> rq_orderType r = JStr ''FAK''"
    and "acquireClient w st (credentialsOf r) = (Inr c, st1)"
    and "truthy (rq_tickSize r)"
  shows "marketService w st r =
     (case createAndPostMarketOrder_upstream w (trace st1) c (marketOrder r) (rq_tickSize r)
             (marketType r) of
        Inr d \<Rightarrow> Inr d | Inl e \<Rightarrow> Inl (rewriteSubmitError w (rq_tokenID r) e),
      st1\<lparr>trace := trace st1
             @ [NetCreateAndPostMarketOrder c (marketOrder r) (rq_tickSize r) (marketType r)]\<rparr>)"
  using assms
  by (auto simp: marketService_def createAndPostMarketOrder_def Let_def marketOrder_def
      marketType_def split: sum.splits)

lemma marketService_fetched_tick:
  assumes "rq_orderType r = JStr ''FOK'' \<or> rq_orderType r = JStr ''FAK''"
    and "acquireClient w st (credentialsOf r) = (Inr c, st1)"
    and "\<not> truthy (rq_tickSize r)"
    and "getTickSize w (trace st1) c (rq_tokenID r) = Inr t" and "truthy t"
  shows "marketService w st r =
     (case createAndPostMarketOrder_upstream w (trace st1 @ [NetGetTickSize c (rq_tokenID r)]) c
             (marketOrder r) t (marketType r) of
        Inr d \<Rightarrow> Inr d | Inl e \<Rightarrow> Inl (rewriteSubmitError w (rq_tokenID r) e),
      st1\<lparr>trace := trace st1
             @ [NetGetTickSize c (rq_tokenID r),
                NetCreateAndPostMarketOrder c (marketOrder r) t (marketType r)]\<rparr>)"
  using assms
  by (auto simp: marketService_def createAndPostMarketOrder_def getMarketInfo_def Let_def
      marketOrder_def marketType_def split: sum.splits)

lemma marketService_returns:
  assumes "rq_orderType r = JStr ''FOK'' \<or> rq_orderType r = JStr ''FAK''"
    and "marketService w st r = (Inr d, st1)"
  shows "\<exists>c t tr. trace st1 = tr @ [NetCreateAndPostMarketOrder c (marketOrder r) t (marketType r)]
           \<and> createAndPostMarketOrder_upstream w tr c (marketOrder r) t (marketType r) = Inr d"
  using assms
  by (auto simp: marketService_def createAndPostMarketOrder_def getMarketInfo_def Let_def
      marketOrder_def marketType_def split: sum.splits prod.splits if_splits)

lemma marketValid_type:
  "marketValid w r \<Longrightarrow> rq_orderType r = JStr ''FOK'' \<or> rq_orderType r = JStr ''FAK''"
  by (simp add: marketValid_def)

text \<open>
  C1. A market-order request that passes validation is handed to the market-order
  service, and the handler answers with the envelope of its result. Whenever the service
  returns data, the response is the success envelope (status 200, \<open>success\<close>, \<open>data\<close>,
  \<open>timestamp\<close>) carrying that data, and the data is the answer of the session's
  market-order submission, the last call made to the venue. This happens as soon as the
  session is acquired, the tick size is given or looked up, and the venue accepts the
  order.
\<close>

theorem market_order_submitted:
  assumes "marketValid w r"
  shows "marketHandler w st r =
           (respond w ''Failed to create market order'' (fst (marketService w st r)),
            snd (marketService w st r)) \<and>
         (\<forall>d st1. marketService w st r = (Inr d, st1) \<longrightarrow>
            marketHandler w st r = (success w d, st1) \<and>
            (\<exists>c t tr.
               trace st1 = tr @ [NetCreateAndPostMarketOrder c (marketOrder r) t (marketType r)] \<and>
               createAndPostMarketOrder_upstream w tr c (marketOrder r) t (marketType r) = Inr d)) \<and>
         (\<forall>c st1 d.
            acquireClient w st (credentialsOf r) = (Inr c, st1) \<longrightarrow>
            truthy (rq_tickSize r) \<longrightarrow>
            createAndPostMarketOrder_upstream w (trace st1) c (marketOrder r) (rq_tickSize r)
              (marketType r) = Inr d \<longrightarrow>
            marketHandler w st r =
              (success w d,
               st1\<lparr>trace := trace st1
                  @ [NetCreateAndPostMarketOrder c (marketOrder r) (rq_tickSize r)
                       (marketType r)]\<rparr>)) \<and>
         (\<forall>c st1 t d.
            acquireClient w st (credentialsOf r) = (Inr c, st1) \<longrightarrow>
            \<not> truthy (rq_tickSize r) \<longrightarrow>
            getTickSize w (trace st1) c (rq_tokenID r) = Inr t \<longrightarrow>
            truthy t \<longrightarrow>
            createAndPostMarketOrder_upstream w (trace st1 @ [NetGetTickSize c (rq_tokenID r)]) c
              (marketOrder r) t (marketType r) = Inr d \<longrightarrow>
            marketHandler w st r =
              (success w d,
               st1\<lparr>trace := trace st1
                  @ [NetGetTickSize c (rq_tokenID r),
                     NetCreateAndPostMarketOrder c (marketOrder r) t (marketType r)]\<rparr>))"
proof -
  note ty = marketValid_type [OF assms]
  note h = marketHandler_valid [OF assms, of st]
  have a: "marketHandler w st r = (success w d, st1) \<and>
            (\<exists>c t tr.
               trace st1 = tr @ [NetCreateAndPostMarketOrder c (marketOrder r) t (marketType r)] \<and>
               createAndPostMarketOrder_upstream w tr c (marketOrder r) t (marketType r) = Inr d)"
    if "marketService w st r = (Inr d, st1)" for d st1
    using marketService_returns [OF ty that] that by (simp add: h respond_simps)
  have b: "marketHandler w st r =
              (success w d,
               st1\<lparr>trace := trace st1
                  @ [NetCreateAndPostMarketOrder c (marketOrder r) (rq_tickSize r)
                       (marketType r)]\<rparr>)"
    if "acquireClient w st (credentialsOf r) = (Inr c, st1)" "truthy (rq_tickSize r)"
      "createAndPostMarketOrder_upstream w (trace st1) c (marketOrder r) (rq_tickSize r)
              (marketType r) = Inr d" for c st1 d
    using marketService_given_tick [OF ty that(1,2)] that(3) by (simp add: h respond_simps)
  have c: "marketHandler w st r =
              (success w d,
               st1\<lparr>trace := trace st1
                  @ [NetGetTickSize c (rq_tokenID r),
                     NetCreateAndPostMarketOrder c (marketOrder r) t (marketType r)]\<rparr>)"
    if "acquireClient w st (credentialsOf r) = (Inr c, st1)" "\<not> truthy (rq_tickSize r)"
      "getTickSize w (trace st1) c (rq_tokenID r) = Inr t" "truthy t"
      "createAndPostMarketOrder_upstream w (trace st1 @ [NetGetTickSize c (rq_tokenID r)]) c
              (marketOrder r) t (marketType r) = Inr d" for c st1 t d
    using marketService_fetched_tick [OF ty that(1,2,3,4)] that(5) by (simp add: h respond_simps)
  show ?thesis using h a b c by blast
qed

theorem market_order_submitted_witness:
  "marketValid world0 okMarketRequest \<and>
   marketHandler world0 registry0 okMarketRequest =
     (success world0 (JObject ''{orderID: 2}''),
      afterEnv\<lparr>trace := trace afterEnv
         @ [NetGetTickSize envSession (JStr ''0xabc''),
            NetCreateAndPostMarketOrder envSession (marketOrder okMarketRequest) (JStr ''0.01'') FOK]\<rparr>) \<and>
   success world0 (JObject ''{orderID: 2}'') =
     \<lparr>res_status = 200,
      res_body = [(''success'', JBool True), (''data'', JObject ''{orderID: 2}''),
                  (''timestamp'', JStr ''2024-01-01T00:00:00.000Z'')]\<rparr> \<and>
   marketHandler world0 registry0 (okMarketRequest\<lparr>rq_tickSize := JStr ''0.001''\<rparr>) =
     (success world0 (JObject ''{orderID: 2}''),
      afterEnv\<lparr>trace := trace afterEnv
         @ [NetCreateAndPostMarketOrder envSession (marketOrder okMarketRequest) (JStr ''0.001'') FOK]\<rparr>)"
proof -
  let ?r = "okMarketRequest\<lparr>rq_tickSize := JStr ''0.001''\<rparr>"
  have v: "marketValid world0 okMarketRequest" by (simp add: request_simps)
  have v': "marketValid world0 ?r"
    by (simp add: marketValid_def okMarketRequest_def emptyBody_def)
  have a: "acquireClient world0 registry0 (credentialsOf okMarketRequest) = (Inr envSession, afterEnv)"
    by (simp add: request_simps acquire_env)
  have a': "acquireClient world0 registry0 (credentialsOf ?r) = (Inr envSession, afterEnv)"
    by (simp add: credentialsOf_def okMarketRequest_def emptyBody_def acquire_env)
  have 1: "marketHandler world0 registry0 okMarketRequest =
     (success world0 (JObject ''{orderID: 2}''),
      afterEnv\<lparr>trace := trace afterEnv
         @ [NetGetTickSize envSession (JStr ''0xabc''),
            NetCreateAndPostMarketOrder envSession (marketOrder okMarketRequest) (JStr ''0.01'') FOK]\<rparr>)"
    using market_order_submitted [OF v, of registry0, THEN conjunct2, THEN conjunct2,
        THEN conjunct2, rule_format, OF a, of "JStr ''0.01''" "JObject ''{orderID: 2}''"]
    by (simp add: field_simps0 world0_simps marketType_def)
  have 2: "marketHandler world0 registry0 ?r =
     (success world0 (JObject ''{orderID: 2}''),
      afterEnv\<lparr>trace := trace afterEnv
         @ [NetCreateAndPostMarketOrder envSession (marketOrder okMarketRequest) (JStr ''0.001'') FOK]\<rparr>)"
    using market_order_submitted [OF v', of registry0, THEN conjunct2, THEN conjunct2,
        THEN conjunct1, rule_format, OF a', of "JObject ''{orderID: 2}''"]
    by (simp add: field_simps0 world0_simps marketType_def marketOrder_def)
  have 3: "success world0 (JObject ''{orderID: 2}'') =
     \<lparr>res_status = 200,
      res_body = [(''success'', JBool True), (''data'', JObject ''{orderID: 2}''),
                  (''timestamp'', JStr ''2024-01-01T00:00:00.000Z'')]\<rparr>"
    by (simp add: success_def res_json_def world0_simps)
  show ?thesis using v 1 2 3 by blast
qed

subsection \<open>Tick size resolution\<close>

text \<open>
  C8. A limit-order request passes the field checks and gives no tick size (it is absent,
  the empty string, or any other falsy value), and its session has been acquired. If the
  venue answers the lookup with a tick size, the order is submitted with that tick size
  (for an order type other than FOK and FAK). If the venue answers that the market is not
  found (status 404, or a \<^verbatim>\<open>data.error\<close> text that includes "not found"), the response
  is the 500 failure envelope and its message contains "Market not found for tokenID: "
  followed by the token. If the venue answers with an empty tick size, the request fails
  with status 500 as well; and so does every other error of the lookup.
\<close>

theorem tick_size_resolution:
  assumes "limitValid r" and "\<not> truthy (rq_tickSize r)"
    and "acquireClient w st (credentialsOf r) = (Inr c, st1)"
  shows "(\<forall>t. getTickSize w (trace st1) c (rq_tokenID r) = Inr t \<longrightarrow> truthy t \<longrightarrow>
            js_or (rq_orderType r) (JStr ''GTC'') \<noteq> JStr ''FOK'' \<longrightarrow>
            js_or (rq_orderType r) (JStr ''GTC'') \<noteq> JStr ''FAK'' \<longrightarrow>
            limitHandler w st r =
              (respond w ''Failed to create limit order''
                 (case createAndPostOrder_upstream w
                         (trace st1 @ [NetGetTickSize c (rq_tokenID r)]) c
                         (limitOrder r) (limitOptions r t)
                         (if js_or (rq_orderType r) (JStr ''GTC'') = JStr ''GTD'' then GTD else GTC) of
                    Inr d \<Rightarrow> Inr d
                  | Inl e \<Rightarrow> Inl (rewriteSubmitError w (rq_tokenID r) e)),
               st1\<lparr>trace := trace st1
                  @ [NetGetTickSize c (rq_tokenID r),
                     NetCreateAndPostOrder c (limitOrder r) (limitOptions r t)
                       (if js_or (rq_orderType r) (JStr ''GTC'') = JStr ''GTD'' then GTD else GTC)]\<rparr>)) \<and>
         (\<forall>e. getTickSize w (trace st1) c (rq_tokenID r) = Inl e \<longrightarrow> isNotFound e \<longrightarrow>
            limitHandler w st r =
              (failure w (notFoundMessage w (rq_tokenID r)),
               st1\<lparr>trace := trace st1 @ [NetGetTickSize c (rq_tokenID r)]\<rparr>) \<and>
            str_includes (notFoundMessage w (rq_tokenID r))
              (''Market not found for tokenID: '' @ toStringJS w (rq_tokenID r))) \<and>
         (\<forall>t. getTickSize w (trace st1) c (rq_tokenID r) = Inr t \<longrightarrow> \<not> truthy t \<longrightarrow>
            limitHandler w st r =
              (failure w ''tickSize is required but could not be determined from market'',
               st1\<lparr>trace := trace st1 @ [NetGetTickSize c (rq_tokenID r)]\<rparr>)) \<and>
         (\<forall>e. getTickSize w (trace st1) c (rq_tokenID r) = Inl e \<longrightarrow>
            res_status (fst (limitHandler w st r)) = 500 \<and>
            snd (limitHandler w st r) = st1\<lparr>trace := trace st1 @ [NetGetTickSize c (rq_tokenID r)]\<rparr>)"
proof -
  note h = limitHandler_valid [OF assms(1), of w st]
  let ?st2 = "st1\<lparr>trace := trace st1 @ [NetGetTickSize c (rq_tokenID r)]\<rparr>"
  have a: "limitHandler w st r =
              (respond w ''Failed to create limit order''
                 (case createAndPostOrder_upstream w
                         (trace st1 @ [NetGetTickSize c (rq_tokenID r)]) c
                         (limitOrder r) (limitOptions r t)
                         (if js_or (rq_orderType r) (JStr ''GTC'') = JStr ''GTD'' then GTD else GTC) of
                    Inr d \<Rightarrow> Inr d
                  | Inl e \<Rightarrow> Inl (rewriteSubmitError w (rq_tokenID r) e)),
               st1\<lparr>trace := trace st1
                  @ [NetGetTickSize c (rq_tokenID r),
                     NetCreateAndPostOrder c (limitOrder r) (limitOptions r t)
                       (if js_or (rq_orderType r) (JStr ''GTC'') = JStr ''GTD'' then GTD else GTC)]\<rparr>)"
    if "getTickSize w (trace st1) c (rq_tokenID r) = Inr t" "truthy t"
      "js_or (rq_orderType r) (JStr ''GTC'') \<noteq> JStr ''FOK''"
      "js_or (rq_orderType r) (JStr ''GTC'') \<noteq> JStr ''FAK''" for t
    using limitService_submits [OF assms(3) resolveTickSize_fetched [OF assms(2) that(1,2)] that(3,4)]
    by (simp add: h)
  have svc: "limitService w st r = (Inl e, st2)"
    if "resolveTickSize w st1 c (rq_tokenID r) (rq_tickSize r) = (Inl e, st2)" for e st2
    using createAndPostOrder_tick_fails [where op = "\<lparr>op_tokenID = rq_tokenID r, op_price = rq_price r, op_side = rq_side r,
        op_size = rq_size r, op_expiration = rq_expiration r\<rparr>" and mp = "\<lparr>mp_tickSize = rq_tickSize r, mp_negRisk = js_coalesce (rq_negRisk r) (JBool False)\<rparr>", OF assms(3)] that
    by (simp add: limitService_def)
  have b: "limitHandler w st r = (failure w (notFoundMessage w (rq_tokenID r)), ?st2)"
    if "getTickSize w (trace st1) c (rq_tokenID r) = Inl e" "isNotFound e" for e
    using svc [OF resolveTickSize_not_found [OF assms(2) that]]
    by (simp add: h respond_simps notFoundMessage_def message_or_Error)
  have b': "str_includes (notFoundMessage w (rq_tokenID r))
              (''Market not found for tokenID: '' @ toStringJS w (rq_tokenID r))"
    unfolding notFoundMessage_def by (rule str_includes_append)
  have c: "limitHandler w st r =
              (failure w ''tickSize is required but could not be determined from market'', ?st2)"
    if "getTickSize w (trace st1) c (rq_tokenID r) = Inr t" "\<not> truthy t" for t
    using svc [OF resolveTickSize_empty [OF assms(2) that]]
    by (simp add: h respond_simps message_or_Error)
  have d: "res_status (fst (limitHandler w st r)) = 500 \<and> snd (limitHandler w st r) = ?st2"
    if "getTickSize w (trace st1) c (rq_tokenID r) = Inl e" for e
  proof (cases "isNotFound e")
    case True
    then show ?thesis using b [OF that] by (simp add: status_simps)
  next
    case False
    then show ?thesis
      using svc [OF resolveTickSize_other_error [OF assms(2) that False]]
      by (simp add: h respond_simps status_simps)
  qed
  show ?thesis using a b b' c d by blast
qed

theorem tick_size_resolution_witness:
  "limitHandler world0 registry0 okRequest =
     (success world0 (JObject ''{orderID: 1}''),
      afterEnv\<lparr>trace := trace afterEnv
         @ [NetGetTickSize envSession (JStr ''0xabc''),
            NetCreateAndPostOrder envSession (limitOrder okRequest)
              (limitOptions okRequest (JStr ''0.01'')) GTC]\<rparr>) \<and>
   oo_tickSize (limitOptions okRequest (JStr ''0.01'')) = JStr ''0.01'' \<and>
   limitHandler world0 registry0 emptyTickRequest =
     (success world0 (JObject ''{orderID: 1}''),
      afterEnv\<lparr>trace := trace afterEnv
         @ [NetGetTickSize envSession (JStr ''0xabc''),
            NetCreateAndPostOrder envSession (limitOrder emptyTickRequest)
              (limitOptions emptyTickRequest (JStr ''0.01'')) GTC]\<rparr>) \<and>
   limitHandler world404 registry0 okRequest =
     (failure world404 (notFoundMessage world404 (JStr ''0xabc'')), afterTick) \<and>
   str_includes (notFoundMessage world404 (JStr ''0xabc'')) ''Market not found for tokenID: 0xabc'' \<and>
   limitHandler worldNoTick registry0 okRequest =
     (failure worldNoTick ''tickSize is required but could not be determined from market'',
      afterTick)"
proof -
  have v: "limitValid okRequest" "limitValid emptyTickRequest"
    by (simp_all add: limitValid_def okRequest_def emptyTickRequest_def emptyBody_def)
  have n: "\<not> truthy (rq_tickSize okRequest)" "\<not> truthy (rq_tickSize emptyTickRequest)"
    by (simp_all add: okRequest_def emptyTickRequest_def emptyBody_def)
  have f: "rq_tokenID emptyTickRequest = JStr ''0xabc''"
    "rq_orderType emptyTickRequest = JUndefined"
    by (simp_all add: okRequest_def emptyTickRequest_def emptyBody_def)
  have c: "credentialsOf emptyTickRequest = None"
    by (simp add: credentialsOf_def okRequest_def emptyTickRequest_def emptyBody_def)
  have a0: "acquireClient world0 registry0 (credentialsOf okRequest) = (Inr envSession, afterEnv)"
    and a1: "acquireClient world0 registry0 (credentialsOf emptyTickRequest) = (Inr envSession, afterEnv)"
    and a2: "acquireClient world404 registry0 (credentialsOf okRequest) = (Inr envSession, afterEnv)"
    and a3: "acquireClient worldNoTick registry0 (credentialsOf okRequest) = (Inr envSession, afterEnv)"
    by (simp_all add: request_simps c acquire_env world404_def worldNoTick_def)
  have 1: "limitHandler world0 registry0 okRequest =
     (success world0 (JObject ''{orderID: 1}''),
      afterEnv\<lparr>trace := trace afterEnv
         @ [NetGetTickSize envSession (JStr ''0xabc''),
            NetCreateAndPostOrder envSession (limitOrder okRequest)
              (limitOptions okRequest (JStr ''0.01'')) GTC]\<rparr>)"
    using tick_size_resolution [OF v(1) n(1) a0, THEN conjunct1, rule_format,
        of "JStr ''0.01''"]
    by (simp add: field_simps0 world0_simps js_or_def respond_simps)
  have 2: "limitHandler world0 registry0 emptyTickRequest =
     (success world0 (JObject ''{orderID: 1}''),
      afterEnv\<lparr>trace := trace afterEnv
         @ [NetGetTickSize envSession (JStr ''0xabc''),
            NetCreateAndPostOrder envSession (limitOrder emptyTickRequest)
              (limitOptions emptyTickRequest (JStr ''0.01'')) GTC]\<rparr>)"
    using tick_size_resolution [OF v(2) n(2) a1, THEN conjunct1, rule_format,
        of "JStr ''0.01''"]
    by (simp add: f world0_simps js_or_def respond_simps)
  have 3: "limitHandler world404 registry0 okRequest =
     (failure world404 (notFoundMessage world404 (JStr ''0xabc'')), afterTick) \<and>
     str_includes (notFoundMessage world404 (JStr ''0xabc'')) ''Market not found for tokenID: 0xabc''"
    using tick_size_resolution [OF v(1) n(1) a2, THEN conjunct2, THEN conjunct1, rule_format,
        of error404]
    by (simp add: field_simps0 world404_def isNotFound_def error404_def afterTick_def)
  have 4: "limitHandler worldNoTick registry0 okRequest =
     (failure worldNoTick ''tickSize is required but could not be determined from market'',
      afterTick)"
    using tick_size_resolution [OF v(1) n(1) a3, THEN conjunct2, THEN conjunct2, THEN conjunct1,
        rule_format, of "JStr []"]
    by (simp add: field_simps0 worldNoTick_def afterTick_def)
  have 5: "oo_tickSize (limitOptions okRequest (JStr ''0.01'')) = JStr ''0.01''"
    by (simp add: limitOptions_def)
  show ?thesis using 1 2 3 4 5 by blast
qed

subsection \<open>The session that serves a request\<close>

lemma callsOn_refl [simp]: "callsOn c st st"
  by (simp add: callsOn_def)

lemma callsOn_append:
  "trace st2 = trace st1 @ ext \<Longrightarrow> list_all (\<lambda>n. callClient n = c) ext \<Longrightarrow> callsOn c st1 st2"
  by (simp add: callsOn_def)

lemma callsOn_tick [simp]:
  "callsOn c st (st\<lparr>trace := trace st @ [NetGetTickSize c t]\<rparr>)"
  by (simp add: callsOn_def)

lemma callsOn_iff:
  "callsOn c st1 st2 =
     (\<exists>ext. trace st2 = trace st1 @ ext \<and> list_all (\<lambda>n. callClient n = c) ext)"
proof
  assume "callsOn c st1 st2"
  then have "trace st2 = trace st1 @ drop (length (trace st1)) (trace st2)"
    and "list_all (\<lambda>n. callClient n = c) (drop (length (trace st1)) (trace st2))"
    unfolding callsOn_def by (metis append_take_drop_id, simp)
  then show "\<exists>ext. trace st2 = trace st1 @ ext \<and> list_all (\<lambda>n. callClient n = c) ext"
    by blast
next
  assume "\<exists>ext. trace st2 = trace st1 @ ext \<and> list_all (\<lambda>n. callClient n = c) ext"
  then show "callsOn c st1 st2" by (auto simp: callsOn_def)
qed

lemma callsOn_step:
  "callsOn c st1 st2 \<Longrightarrow> callClient n = c \<Longrightarrow> callsOn c st1 (st2\<lparr>trace := trace st2 @ [n]\<rparr>)"
  by (auto simp: callsOn_iff)

lemma getMarketInfo_callsOn:
  "callsOn c st (snd (getMarketInfo w st tok (Some c)))"
  by (simp add: getMarketInfo_def Let_def split: sum.splits)

lemma resolveTickSize_callsOn:
  "callsOn c st (snd (resolveTickSize w st c tok t0))"
proof (cases "truthy t0")
  case True
  then show ?thesis by (simp add: resolveTickSize_given)
next
  case False
  obtain r st1 where g: "getMarketInfo w st tok (Some c) = (r, st1)"
    by (cases "getMarketInfo w st tok (Some c)")
  then have "callsOn c st st1"
    using getMarketInfo_callsOn [of c st w tok] by simp
  then show ?thesis
    using False g by (simp add: resolveTickSize_def split: sum.splits)
qed

lemma createAndPostOrder_callsOn:
  assumes "acquireClient w st cred = (Inr c, st1)"
  shows "callsOn c st1 (snd (createAndPostOrder w st op mp ot cred))"
proof -
  obtain r st2 where t: "resolveTickSize w st1 c (op_tokenID op) (mp_tickSize mp) = (r, st2)"
    by (cases "resolveTickSize w st1 c (op_tokenID op) (mp_tickSize mp)")
  then have c2: "callsOn c st1 st2"
    using resolveTickSize_callsOn [of c st1 w "op_tokenID op" "mp_tickSize mp"] by simp
  show ?thesis
  proof (cases r)
    case (Inl e)
    then show ?thesis
      using createAndPostOrder_tick_fails [OF assms, of op mp e st2 ot] t c2 by simp
  next
    case (Inr tick)
    show ?thesis
    proof (cases "ot = JStr ''FOK'' \<or> ot = JStr ''FAK''")
      case True
      then show ?thesis
        using assms t Inr c2 by (auto simp: createAndPostOrder_def)
    next
      case False
      then show ?thesis
        using createAndPostOrder_submits [OF assms, of op mp tick st2 ot, OF _ _ _ refl refl refl]
          t Inr callsOn_step [OF c2]
        by simp
    qed
  qed
qed

lemma createAndPostMarketOrder_callsOn:
  assumes "acquireClient w st cred = (Inr c, st1)"
  shows "callsOn c st1 (snd (createAndPostMarketOrder w st op t0 ot cred))"
proof -
  obtain r st2 where g: "getMarketInfo w st1 (mop_tokenID op) (Some c) = (r, st2)"
    by (cases "getMarketInfo w st1 (mop_tokenID op) (Some c)")
  then have c2: "callsOn c st1 st2"
    using getMarketInfo_callsOn [of c st1 w "mop_tokenID op"] by simp
  have s: "callsOn c st1 (st\<lparr>trace := trace st @ [NetCreateAndPostMarketOrder c x y z]\<rparr>)"
    if "callsOn c st1 st" for st x y z
    using callsOn_step [OF that, of "NetCreateAndPostMarketOrder c x y z"] by simp
  show ?thesis
    using assms g c2 s [OF c2] s [OF callsOn_refl]
    by (simp add: createAndPostMarketOrder_def Let_def split: sum.splits)
qed

lemma createAndPostMarketOrder_acquire_fails:
  "acquireClient w st cred = (Inl e, st1) \<Longrightarrow>
   createAndPostMarketOrder w st op t0 ot cred = (Inl e, st1)"
  by (simp add: createAndPostMarketOrder_def)

lemma servedBy_acquireClient:
  "servedBy w st r (acquireClient w st (credentialsOf r))"
proof (cases "acquireClient w st (credentialsOf r)")
  case (Pair res st1)
  show ?thesis
  proof (cases res)
    case (Inl e)
    have l: "limitService w st r = (Inl e, st1)"
      using Pair Inl by (simp add: limitService_def createAndPostOrder_acquire_fails)
    have m: "marketService w st r = (Inl e, st1)"
      using Pair Inl by (simp add: marketService_def createAndPostMarketOrder_acquire_fails)
    show ?thesis
      using Pair Inl l m
      by (simp add: servedBy_def limitHandler_valid legacyHandler_valid marketHandler_valid
          respond_simps)
  next
    case (Inr c)
    have l: "callsOn c st1 (snd (limitService w st r))"
      unfolding limitService_def using Pair Inr by (simp add: createAndPostOrder_callsOn)
    have m: "callsOn c st1 (snd (marketService w st r))"
      unfolding marketService_def using Pair Inr by (simp add: createAndPostMarketOrder_callsOn)
    show ?thesis
      using Pair Inr l m
      by (simp add: servedBy_def limitHandler_valid legacyHandler_valid marketHandler_valid)
  qed
qed

lemma getInstanceWithCredentials_bound:
  assumes "clientCache st (cacheKey w privateKey funderAddress) = None"
    and "getInstanceWithCredentials w st privateKey funderAddress host chainId signatureType
           = (Inr c, st1)"
  shows "cl_signer c = privateKey \<and> cl_funderAddress c = funderAddress"
  using assms
  by (auto simp: getInstanceWithCredentials_def Let_def newSession_def
      split: option.splits if_splits sum.splits)

lemma getInstance_bound:
  assumes "instance_field st = None"
    and "clientCache st (cacheKey w (envVal (PRIVATE_KEY w)) (envVal (FUNDER_ADDRESS w))) = None"
    and "getInstance w st = (Inr c, st1)"
  shows "cl_signer c = envVal (PRIVATE_KEY w) \<and> cl_funderAddress c = envVal (FUNDER_ADDRESS w)"
  using assms getInstanceWithCredentials_bound [OF assms(2)]
  by (auto simp: getInstance_def Let_def split: if_splits)

text \<open>
  C7. The credential decision of every order handler. Both \<^verbatim>\<open>privateKey\<close> and
  \<^verbatim>\<open>funderAddress\<close> given (truthy): no violation, the credentials of the call are that
  pair, and the session is acquired for it. Both missing (falsy): no violation, no
  credentials, and the session is the one of the environment's pair
  (\<^verbatim>\<open>PRIVATE_KEY\<close>, \<^verbatim>\<open>FUNDER_ADDRESS\<close>). Exactly one given: a violation, and once the field
  checks have passed each of the three handlers answers 400 with the message that both
  must be provided together and leaves the registry as it was. A request that passes the
  checks is answered with the envelope of the order service called with these
  credentials; if the acquisition for the pair throws, the handler answers with the
  failure envelope of that error, and if it returns a session, every venue call the
  handler goes on to make is made on that session. A session that the acquisition builds
  (none is cached under the key) signs with the pair's key and funds from the pair's
  address.
\<close>

theorem credential_pair_resolution:
  "(truthy (rq_privateKey r) \<and> truthy (rq_funderAddress r) \<longrightarrow>
      \<not> pairingViolated r \<and>
      credentialsOf r = Some (rq_privateKey r, rq_funderAddress r) \<and>
      acquireClient w st (credentialsOf r) =
        getInstanceWithCredentials w st (rq_privateKey r) (rq_funderAddress r)
          (defaultHost w) (defaultChainId w) (defaultSignatureType w))
   \<and> (\<not> truthy (rq_privateKey r) \<and> \<not> truthy (rq_funderAddress r) \<longrightarrow>
      \<not> pairingViolated r \<and> credentialsOf r = None \<and>
      acquireClient w st (credentialsOf r) = getInstance w st)
   \<and> (instance_field st = None \<and> truthy (envVal (PRIVATE_KEY w)) \<and>
       truthy (envVal (FUNDER_ADDRESS w)) \<longrightarrow>
      getInstance w st =
        getInstanceWithCredentials w st (envVal (PRIVATE_KEY w)) (envVal (FUNDER_ADDRESS w))
          (defaultHost w) (defaultChainId w) (defaultSignatureType w))
   \<and> (truthy (rq_privateKey r) \<noteq> truthy (rq_funderAddress r) \<longrightarrow>
      pairingViolated r \<and>
      (truthy (rq_tokenID r) \<and> rq_price r \<noteq> JUndefined \<and> rq_price r \<noteq> JNull \<and>
       truthy (rq_side r) \<and> rq_size r \<noteq> JUndefined \<and> rq_size r \<noteq> JNull \<longrightarrow>
         limitHandler w st r = (badRequest pairingMessage, st) \<and>
         legacyHandler w st r = (badRequest pairingMessage, st)) \<and>
      (truthy (rq_tokenID r) \<and> rq_amount r \<noteq> JUndefined \<and> rq_amount r \<noteq> JNull \<and>
       \<not> le_zero w (rq_amount r) \<and> truthy (rq_side r) \<and>
       (rq_orderType r = JStr ''FOK'' \<or> rq_orderType r = JStr ''FAK'') \<longrightarrow>
         marketHandler w st r = (badRequest pairingMessage, st)))
   \<and> str_includes pairingMessage ''must be provided together''
   \<and> (limitValid r \<longrightarrow>
        (case createAndPostOrder w st
                \<lparr>op_tokenID = rq_tokenID r, op_price = rq_price r, op_side = rq_side r,
                 op_size = rq_size r, op_expiration = rq_expiration r\<rparr>
                \<lparr>mp_tickSize = rq_tickSize r,
                 mp_negRisk = js_coalesce (rq_negRisk r) (JBool False)\<rparr>
                (js_or (rq_orderType r) (JStr ''GTC''))
                (credentialsOf r) of
           (res, st1) \<Rightarrow>
             limitHandler w st r = (respond w ''Failed to create limit order'' res, st1) \<and>
             legacyHandler w st r = (respond w ''Failed to create order'' res, st1)))
   \<and> (marketValid w r \<longrightarrow>
        (case createAndPostMarketOrder w st
                \<lparr>mop_tokenID = rq_tokenID r, mop_amount = rq_amount r,
                 mop_side = rq_side r, mop_orderType = rq_orderType r\<rparr>
                (rq_tickSize r) (rq_orderType r) (credentialsOf r) of
           (res, st1) \<Rightarrow>
             marketHandler w st r = (respond w ''Failed to create market order'' res, st1)))
   \<and> (truthy (rq_privateKey r) \<and> truthy (rq_funderAddress r) \<longrightarrow>
        servedBy w st r
          (getInstanceWithCredentials w st (rq_privateKey r) (rq_funderAddress r)
             (defaultHost w) (defaultChainId w) (defaultSignatureType w)))
   \<and> (\<not> truthy (rq_privateKey r) \<and> \<not> truthy (rq_funderAddress r) \<longrightarrow>
        servedBy w st r (getInstance w st))
   \<and> (\<forall>c st1.
         clientCache st (cacheKey w (rq_privateKey r) (rq_funderAddress r)) = None \<longrightarrow>
         getInstanceWithCredentials w st (rq_privateKey r) (rq_funderAddress r)
           (defaultHost w) (defaultChainId w) (defaultSignatureType w) = (Inr c, st1) \<longrightarrow>
         cl_signer c = rq_privateKey r \<and> cl_funderAddress c = rq_funderAddress r)
   \<and> (\<forall>c st1.
         instance_field st = None \<longrightarrow>
         clientCache st (cacheKey w (envVal (PRIVATE_KEY w)) (envVal (FUNDER_ADDRESS w))) = None \<longrightarrow>
         getInstance w st = (Inr c, st1) \<longrightarrow>
         cl_signer c = envVal (PRIVATE_KEY w) \<and> cl_funderAddress c = envVal (FUNDER_ADDRESS w))"
proof -
  note old = credential_decision [of r w st]
  have l: "limitValid r \<longrightarrow>
        (case createAndPostOrder w st
                \<lparr>op_tokenID = rq_tokenID r, op_price = rq_price r, op_side = rq_side r,
                 op_size = rq_size r, op_expiration = rq_expiration r\<rparr>
                \<lparr>mp_tickSize = rq_tickSize r,
                 mp_negRisk = js_coalesce (rq_negRisk r) (JBool False)\<rparr>
                (js_or (rq_orderType r) (JStr ''GTC''))
                (credentialsOf r) of
           (res, st1) \<Rightarrow>
             limitHandler w st r = (respond w ''Failed to create limit order'' res, st1) \<and>
             legacyHandler w st r = (respond w ''Failed to create order'' res, st1))"
    by (simp add: limitHandler_valid legacyHandler_valid limitService_def split: prod.splits)
  have m: "marketValid w r \<longrightarrow>
        (case createAndPostMarketOrder w st
                \<lparr>mop_tokenID = rq_tokenID r, mop_amount = rq_amount r,
                 mop_side = rq_side r, mop_orderType = rq_orderType r\<rparr>
                (rq_tickSize r) (rq_orderType r) (credentialsOf r) of
           (res, st1) \<Rightarrow>
             marketHandler w st r = (respond w ''Failed to create market order'' res, st1))"
    by (simp add: marketHandler_valid marketService_def split: prod.splits)
  note s = servedBy_acquireClient [of w st r]
  have s1: "truthy (rq_privateKey r) \<and> truthy (rq_funderAddress r) \<longrightarrow>
        servedBy w st r
          (getInstanceWithCredentials w st (rq_privateKey r) (rq_funderAddress r)
             (defaultHost w) (defaultChainId w) (defaultSignatureType w))"
    using s by (auto simp: credentialsOf_def acquireClient_def)
  have s2: "\<not> truthy (rq_privateKey r) \<and> \<not> truthy (rq_funderAddress r) \<longrightarrow>
        servedBy w st r (getInstance w st)"
    using s by (auto simp: credentialsOf_def acquireClient_def)
  have b1: "\<forall>c st1.
         clientCache st (cacheKey w (rq_privateKey r) (rq_funderAddress r)) = None \<longrightarrow>
         getInstanceWithCredentials w st (rq_privateKey r) (rq_funderAddress r)
           (defaultHost w) (defaultChainId w) (defaultSignatureType w) = (Inr c, st1) \<longrightarrow>
         cl_signer c = rq_privateKey r \<and> cl_funderAddress c = rq_funderAddress r"
    using getInstanceWithCredentials_bound by blast
  have b2: "\<forall>c st1.
         instance_field st = None \<longrightarrow>
         clientCache st (cacheKey w (envVal (PRIVATE_KEY w)) (envVal (FUNDER_ADDRESS w))) = None \<longrightarrow>
         getInstance w st = (Inr c, st1) \<longrightarrow>
         cl_signer c = envVal (PRIVATE_KEY w) \<and> cl_funderAddress c = envVal (FUNDER_ADDRESS w)"
    using getInstance_bound by blast
  note o1 = old [THEN conjunct1]
    and o2 = old [THEN conjunct2, THEN conjunct1]
    and o3 = old [THEN conjunct2, THEN conjunct2, THEN conjunct1]
    and o4 = old [THEN conjunct2, THEN conjunct2, THEN conjunct2, THEN conjunct1]
    and o5 = old [THEN conjunct2, THEN conjunct2, THEN conjunct2, THEN conjunct2]
  show ?thesis
    by (intro conjI) (rule o1 o2 o3 o4 o5 l m s1 s2 b1 b2)+
qed

lemma pair_simps:
  "limitValid pairRequest" "marketValid w pairMarketRequest"
  "rq_privateKey pairRequest = JStr keyA" "rq_funderAddress pairRequest = JStr (funderA @ ''-1'')"
  "rq_privateKey pairMarketRequest = JStr keyA"
  "rq_funderAddress pairMarketRequest = JStr (funderA @ ''-1'')"
  "rq_tokenID pairRequest = JStr ''0xabc''" "rq_tickSize pairRequest = JUndefined"
  "rq_orderType pairRequest = JUndefined"
  "rq_tokenID pairMarketRequest = JStr ''0xabc''" "rq_tickSize pairMarketRequest = JUndefined"
  "rq_orderType pairMarketRequest = JStr ''FOK''"
  "credentialsOf pairMarketRequest = Some pairA"
  "rq_privateKey okRequest = JUndefined" "rq_funderAddress okRequest = JUndefined"
  by (simp_all add: limitValid_def marketValid_def pairRequest_def pairMarketRequest_def
      okRequest_def okMarketRequest_def emptyBody_def credentialsOf_def pairA_def)

lemma pair_limit:
  "limitHandler world0 registry0 pairRequest =
     (success world0 (JObject ''{orderID: 1}''),
      afterA\<lparr>trace := trace afterA
         @ [NetGetTickSize sessionA (JStr ''0xabc''),
            NetCreateAndPostOrder sessionA (limitOrder pairRequest)
              (limitOptions pairRequest (JStr ''0.01'')) GTC]\<rparr>)"
proof -
  have a: "acquireClient world0 registry0 (credentialsOf pairRequest) = (Inr sessionA, afterA)"
    by (simp add: request_simps acquire_pairA)
  have t: "resolveTickSize world0 afterA sessionA (rq_tokenID pairRequest) (rq_tickSize pairRequest)
     = (Inr (JStr ''0.01''), afterA\<lparr>trace := trace afterA @ [NetGetTickSize sessionA (JStr ''0xabc'')]\<rparr>)"
    by (simp add: pair_simps resolveTickSize_fetched world0_simps)
  have "limitService world0 registry0 pairRequest =
     (Inr (JObject ''{orderID: 1}''),
      afterA\<lparr>trace := trace afterA
         @ [NetGetTickSize sessionA (JStr ''0xabc''),
            NetCreateAndPostOrder sessionA (limitOrder pairRequest)
              (limitOptions pairRequest (JStr ''0.01'')) GTC]\<rparr>)"
    by (subst limitService_submits [OF a t])
      (simp_all add: pair_simps js_or_def world0_simps)
  then show ?thesis
    by (simp add: limitHandler_valid pair_simps respond_simps)
qed

lemma pair_market:
  "marketHandler world0 registry0 pairMarketRequest =
     (success world0 (JObject ''{orderID: 2}''),
      afterA\<lparr>trace := trace afterA
         @ [NetGetTickSize sessionA (JStr ''0xabc''),
            NetCreateAndPostMarketOrder sessionA (marketOrder pairMarketRequest)
              (JStr ''0.01'') FOK]\<rparr>)"
proof -
  have a: "acquireClient world0 registry0 (credentialsOf pairMarketRequest) = (Inr sessionA, afterA)"
    by (simp add: pair_simps acquire_pairA)
  have "marketService world0 registry0 pairMarketRequest =
     (Inr (JObject ''{orderID: 2}''),
      afterA\<lparr>trace := trace afterA
         @ [NetGetTickSize sessionA (JStr ''0xabc''),
            NetCreateAndPostMarketOrder sessionA (marketOrder pairMarketRequest)
              (JStr ''0.01'') FOK]\<rparr>)"
    by (subst marketService_fetched_tick [OF _ a, where t = "JStr ''0.01''"])
      (simp_all add: pair_simps world0_simps marketType_def)
  then show ?thesis
    by (simp add: marketHandler_valid pair_simps respond_simps)
qed

lemma env_limit:
  "limitHandler world0 registry0 okRequest =
     (success world0 (JObject ''{orderID: 1}''),
      afterEnv\<lparr>trace := trace afterEnv
         @ [NetGetTickSize envSession (JStr ''0xabc''),
            NetCreateAndPostOrder envSession (limitOrder okRequest)
              (limitOptions okRequest (JStr ''0.01'')) GTC]\<rparr>)"
proof -
  have a: "acquireClient world0 registry0 (credentialsOf okRequest) = (Inr envSession, afterEnv)"
    by (simp add: request_simps acquire_env)
  have t: "resolveTickSize world0 afterEnv envSession (rq_tokenID okRequest) (rq_tickSize okRequest)
     = (Inr (JStr ''0.01''), afterTick)"
    by (simp add: field_simps0 env_tick)
  have "limitService world0 registry0 okRequest =
     (Inr (JObject ''{orderID: 1}''),
      afterTick\<lparr>trace := trace afterTick
         @ [NetCreateAndPostOrder envSession (limitOrder okRequest)
              (limitOptions okRequest (JStr ''0.01'')) GTC]\<rparr>)"
    by (subst limitService_submits [OF a t])
      (simp_all add: field_simps0 js_or_def world0_simps)
  then show ?thesis
    by (simp add: limitHandler_valid request_simps respond_simps afterTick_def)
qed

theorem credential_pair_resolution_witness:
  "limitValid pairRequest \<and>
   rq_privateKey pairRequest = JStr keyA \<and>
   rq_funderAddress pairRequest = JStr (funderA @ ''-1'') \<and>
   getInstanceWithCredentials world0 registry0 (JStr keyA) (JStr (funderA @ ''-1''))
     (defaultHost world0) (defaultChainId world0) (defaultSignatureType world0)
     = (Inr sessionA, afterA) \<and>
   cl_signer sessionA = JStr keyA \<and> cl_funderAddress sessionA = JStr (funderA @ ''-1'') \<and>
   limitHandler world0 registry0 pairRequest =
     (success world0 (JObject ''{orderID: 1}''),
      afterA\<lparr>trace := trace afterA
         @ [NetGetTickSize sessionA (JStr ''0xabc''),
            NetCreateAndPostOrder sessionA (limitOrder pairRequest)
              (limitOptions pairRequest (JStr ''0.01'')) GTC]\<rparr>) \<and>
   callsOn sessionA afterA (snd (limitHandler world0 registry0 pairRequest)) \<and>
   callsOn sessionA afterA (snd (legacyHandler world0 registry0 pairRequest)) \<and>
   marketHandler world0 registry0 pairMarketRequest =
     (success world0 (JObject ''{orderID: 2}''),
      afterA\<lparr>trace := trace afterA
         @ [NetGetTickSize sessionA (JStr ''0xabc''),
            NetCreateAndPostMarketOrder sessionA (marketOrder pairMarketRequest)
              (JStr ''0.01'') FOK]\<rparr>) \<and>
   callsOn sessionA afterA (snd (marketHandler world0 registry0 pairMarketRequest)) \<and>
   limitValid okRequest \<and> credentialsOf okRequest = None \<and>
   getInstance world0 registry0 = (Inr envSession, afterEnv) \<and>
   cl_signer envSession = envVal (PRIVATE_KEY world0) \<and>
   cl_funderAddress envSession = envVal (FUNDER_ADDRESS world0) \<and>
   limitHandler world0 registry0 okRequest =
     (success world0 (JObject ''{orderID: 1}''),
      afterEnv\<lparr>trace := trace afterEnv
         @ [NetGetTickSize envSession (JStr ''0xabc''),
            NetCreateAndPostOrder envSession (limitOrder okRequest)
              (limitOptions okRequest (JStr ''0.01'')) GTC]\<rparr>) \<and>
   callsOn envSession afterEnv (snd (limitHandler world0 registry0 okRequest)) \<and>
   limitHandler world0 registry0 keyOnlyRequest = (badRequest pairingMessage, registry0) \<and>
   legacyHandler world0 registry0 keyOnlyRequest = (badRequest pairingMessage, registry0) \<and>
   marketHandler world0 registry0 (okMarketRequest\<lparr>rq_funderAddress := JStr funderA\<rparr>)
     = (badRequest pairingMessage, registry0)"
proof -
  note c8 = conjunct2 [THEN conjunct2, THEN conjunct2, THEN conjunct2, THEN conjunct2,
      THEN conjunct2, THEN conjunct2, THEN conjunct1]
  note c9 = conjunct2 [THEN conjunct2, THEN conjunct2, THEN conjunct2, THEN conjunct2,
      THEN conjunct2, THEN conjunct2, THEN conjunct2, THEN conjunct1]
  note c10 = conjunct2 [THEN conjunct2, THEN conjunct2, THEN conjunct2, THEN conjunct2,
      THEN conjunct2, THEN conjunct2, THEN conjunct2, THEN conjunct2, THEN conjunct1]
  note c11 = conjunct2 [THEN conjunct2, THEN conjunct2, THEN conjunct2, THEN conjunct2,
      THEN conjunct2, THEN conjunct2, THEN conjunct2, THEN conjunct2, THEN conjunct2]
  note c4 = conjunct2 [THEN conjunct2, THEN conjunct2, THEN conjunct1]
  have g: "getInstanceWithCredentials world0 registry0 (JStr keyA) (JStr (funderA @ ''-1''))
     (defaultHost world0) (defaultChainId world0) (defaultSignatureType world0)
     = (Inr sessionA, afterA)"
    using acquire_pairA(1) by (simp add: acquireClient_def pairA_def)
  have e: "getInstance world0 registry0 = (Inr envSession, afterEnv)"
    using acquire_env by (simp add: acquireClient_def)
  have sA: "servedBy world0 registry0 pairRequest (Inr sessionA, afterA)"
    using credential_pair_resolution [of pairRequest world0 registry0, THEN c8] g by (simp add: pair_simps)
  have sM: "servedBy world0 registry0 pairMarketRequest (Inr sessionA, afterA)"
    using credential_pair_resolution [of pairMarketRequest world0 registry0, THEN c8] g by (simp add: pair_simps)
  have sE: "servedBy world0 registry0 okRequest (Inr envSession, afterEnv)"
    using credential_pair_resolution [of okRequest world0 registry0, THEN c9] e by (simp add: pair_simps)
  have 1: "callsOn sessionA afterA (snd (limitHandler world0 registry0 pairRequest)) \<and>
     callsOn sessionA afterA (snd (legacyHandler world0 registry0 pairRequest))"
    using sA by (simp add: servedBy_def pair_simps)
  have 2: "callsOn sessionA afterA (snd (marketHandler world0 registry0 pairMarketRequest))"
    using sM by (simp add: servedBy_def pair_simps)
  have 3: "callsOn envSession afterEnv (snd (limitHandler world0 registry0 okRequest))"
    using sE by (simp add: servedBy_def request_simps)
  have 4: "cl_signer sessionA = JStr keyA \<and> cl_funderAddress sessionA = JStr (funderA @ ''-1'')"
    using credential_pair_resolution [of pairRequest world0 registry0, THEN c10, rule_format, of sessionA afterA] g
    by (simp add: pair_simps registry0_def)
  have 5: "cl_signer envSession = envVal (PRIVATE_KEY world0) \<and>
     cl_funderAddress envSession = envVal (FUNDER_ADDRESS world0)"
    using credential_pair_resolution [of okRequest world0 registry0, THEN c11, rule_format, of envSession afterEnv] e
    by (simp add: registry0_def)
  have k: "truthy (rq_privateKey keyOnlyRequest) \<noteq> truthy (rq_funderAddress keyOnlyRequest)"
    "truthy (rq_tokenID keyOnlyRequest) \<and> rq_price keyOnlyRequest \<noteq> JUndefined \<and>
     rq_price keyOnlyRequest \<noteq> JNull \<and> truthy (rq_side keyOnlyRequest) \<and>
     rq_size keyOnlyRequest \<noteq> JUndefined \<and> rq_size keyOnlyRequest \<noteq> JNull"
    by (simp_all add: keyOnlyRequest_def okRequest_def emptyBody_def)
  let ?m = "okMarketRequest\<lparr>rq_funderAddress := JStr funderA\<rparr>"
  have m: "truthy (rq_privateKey ?m) \<noteq> truthy (rq_funderAddress ?m)"
    "truthy (rq_tokenID ?m) \<and> rq_amount ?m \<noteq> JUndefined \<and> rq_amount ?m \<noteq> JNull \<and>
       \<not> le_zero world0 (rq_amount ?m) \<and> truthy (rq_side ?m) \<and>
       (rq_orderType ?m = JStr ''FOK'' \<or> rq_orderType ?m = JStr ''FAK'')"
    by (simp_all add: okMarketRequest_def emptyBody_def le_zero_def)
  have 6: "limitHandler world0 registry0 keyOnlyRequest = (badRequest pairingMessage, registry0) \<and>
     legacyHandler world0 registry0 keyOnlyRequest = (badRequest pairingMessage, registry0)"
    using credential_pair_resolution [of keyOnlyRequest world0 registry0, THEN c4] k by blast
  have 7: "marketHandler world0 registry0 ?m = (badRequest pairingMessage, registry0)"
    using credential_pair_resolution [of ?m world0 registry0, THEN c4] m by blast
  show ?thesis
    using g e 1 2 3 4 5 6 7 pair_limit pair_market env_limit
    by (simp add: pair_simps request_simps)
qed

end
